theory Spec2Isabelle
  imports Complex_Main "HOL-Library.Word"
begin

unbundle bit_operations_syntax

section \<open>Python primitives used by the decoder\<close>

text \<open>
  The image is a Python \<open>bytes\<close> object: a list of 8-bit words. Python integers are
  unbounded; every value unpacked with an unsigned struct code is a \<open>nat\<close>, and \<open>int\<close> is
  used where the source subtracts (\<open>vbn - 1\<close>, \<open>file_number - 1\<close>) or receives a signed
  argument. Every exception the source can raise is a value of \<open>error\<close>.
\<close>

type_synonym byte = "8 word"

datatype error = StructError | IndexError | UnicodeDecodeError | AttributeError | TypeError

abbreviation BLOCK_SIZE :: nat where
  "BLOCK_SIZE \<equiv> 512"

fun ebind :: "error + 'a \<Rightarrow> ('a \<Rightarrow> error + 'b) \<Rightarrow> error + 'b" where
  "ebind (Inl e) f = Inl e"
| "ebind (Inr v) f = f v"

text \<open>\<open>xs[a:b]\<close> for \<open>0 \<le> a \<le> b\<close>: never raises, shorter when the list ends early.\<close>

definition slice :: "'a list \<Rightarrow> nat \<Rightarrow> nat \<Rightarrow> 'a list" where
  "slice xs a b = take (b - a) (drop a xs)"

text \<open>\<open>xs[a:b] = ys\<close> on a bytearray, for \<open>0 \<le> a \<le> b\<close>.\<close>

definition slice_assign :: "'a list \<Rightarrow> nat \<Rightarrow> nat \<Rightarrow> 'a list \<Rightarrow> 'a list" where
  "slice_assign xs a b ys = take a xs @ ys @ drop b xs"

text \<open>\<open>xs[i]\<close> for a non-negative index: IndexError out of range.\<close>

definition index_byte :: "'a list \<Rightarrow> nat \<Rightarrow> error + 'a" where
  "index_byte xs i = (if i < length xs then Inr (xs ! i) else Inl IndexError)"

text \<open>\<open>xs[i]\<close> and \<open>xs[i] = v\<close> for a Python integer: negative indices count from the end.\<close>

definition py_index :: "'a list \<Rightarrow> int \<Rightarrow> error + 'a" where
  "py_index xs i =
     (let n = int (length xs)
      in if 0 \<le> i \<and> i < n then Inr (xs ! nat i)
         else if - n \<le> i \<and> i < 0 then Inr (xs ! nat (n + i))
         else Inl IndexError)"

definition list_assign :: "'a list \<Rightarrow> int \<Rightarrow> 'a \<Rightarrow> error + 'a list" where
  "list_assign xs i v =
     (let n = int (length xs)
      in if 0 \<le> i \<and> i < n then Inr (xs[nat i := v])
         else if - n \<le> i \<and> i < 0 then Inr (xs[nat (n + i) := v])
         else Inl IndexError)"

text \<open>
  \<open>struct.unpack_from(fmt, buffer, offset)\<close> raises \<open>struct.error\<close> unless \<open>calcsize(fmt)\<close>
  bytes are available at \<open>offset\<close>; the fields are then read from the returned bytes.
\<close>

definition unpack_from :: "nat \<Rightarrow> byte list \<Rightarrow> nat \<Rightarrow> error + byte list" where
  "unpack_from n buf offset =
     (if offset + n \<le> length buf then Inr (slice buf offset (offset + n)) else Inl StructError)"

text \<open>An unsigned little-endian field (struct codes B, H, I, Q).\<close>

fun le_uint :: "byte list \<Rightarrow> nat" where
  "le_uint [] = 0"
| "le_uint (b # bs) = unat b + 256 * le_uint bs"

text \<open>\<open>bytes.decode('ascii')\<close>: UnicodeDecodeError on a byte above 0x7F.\<close>

definition decode_ascii :: "byte list \<Rightarrow> error + string" where
  "decode_ascii bs =
     (if list_all (\<lambda>b. unat b < 128) bs then Inr (map (\<lambda>b. char_of (unat b)) bs)
      else Inl UnicodeDecodeError)"

text \<open>\<open>if s.endswith('.'): s = s[:-1]\<close>\<close>

definition strip_dot :: "string \<Rightarrow> string" where
  "strip_dot s = (if s \<noteq> [] \<and> last s = CHR ''.'' then butlast s else s)"

text \<open>\<open>str.isspace\<close> on an ASCII character, and \<open>str.strip()\<close>.\<close>

definition isspace :: "char \<Rightarrow> bool" where
  "isspace c = (let n = (of_char c :: nat) in (9 \<le> n \<and> n \<le> 13) \<or> (28 \<le> n \<and> n \<le> 32))"

definition strip :: "string \<Rightarrow> string" where
  "strip s = rev (dropWhile isspace (rev (dropWhile isspace s)))"

text \<open>\<open>s.rsplit(c, 1)[0]\<close>: the part before the last \<open>c\<close>, or all of \<open>s\<close>.\<close>

definition rsplit1_head :: "char \<Rightarrow> string \<Rightarrow> string" where
  "rsplit1_head c s = (if c \<in> set s then rev (tl (dropWhile (\<lambda>x. x \<noteq> c) (rev s))) else s)"

text \<open>\<open>s.split(c)\<close> for a separator character.\<close>

fun split_on :: "char \<Rightarrow> string \<Rightarrow> string list" where
  "split_on c [] = [[]]"
| "split_on c (x # xs) =
     (if x = c then [] # split_on c xs
      else (case split_on c xs of [] \<Rightarrow> [[x]] | p # ps \<Rightarrow> (x # p) # ps))"

text \<open>\<open>int(a / b)\<close> for integers: true division, then truncation towards zero. The
  quotients taken by the source are by 8 and 512 on small values, where the float is exact.\<close>

definition int_truediv :: "int \<Rightarrow> int \<Rightarrow> int" where
  "int_truediv a b = sgn a * sgn b * (\<bar>a\<bar> div \<bar>b\<bar>)"

text \<open>\<open>VMStoUNIX\<close>; the float quotient is idealised as a real.\<close>

definition VMStoUNIX :: "nat \<Rightarrow> real" where
  "VMStoUNIX timestamp = (real timestamp - 35067168003000000) / 10000000"

section \<open>FileID, DirectoryEntry, DirectoryRecord\<close>

record FileID =
  file_number :: nat
  sequence_number :: nat
  relative_volume_number :: nat

text \<open>FORMAT \<open><HHBB\<close>: W_NUM, W_SEQ, B_RVN, B_NMX.\<close>

definition FileID_init :: "byte list \<Rightarrow> error + FileID" where
  "FileID_init disk =
     ebind (unpack_from 6 disk 0) (\<lambda>h.
       let W_NUM = le_uint (slice h 0 2);
           W_SEQ = le_uint (slice h 2 4);
           B_RVN = le_uint (slice h 4 5);
           B_NMX = le_uint (slice h 5 6)
       in Inr \<lparr>file_number = push_bit 16 B_NMX OR W_NUM,
               sequence_number = W_SEQ,
               relative_volume_number = B_RVN\<rparr>)"

record DirectoryEntry =
  de_fid :: FileID

text \<open>FORMAT \<open><H6s\<close>: W_VERSION, W_FID; SIZE is 8.\<close>

definition DirectoryEntry_init :: "byte list \<Rightarrow> nat \<Rightarrow> error + DirectoryEntry" where
  "DirectoryEntry_init disk offset =
     ebind (unpack_from 8 disk offset) (\<lambda>h.
       ebind (FileID_init (slice h 2 8)) (\<lambda>fid. Inr \<lparr>de_fid = fid\<rparr>))"

record DirectoryRecord =
  dr_size :: nat
  dr_name :: string
  dr_entries :: "DirectoryEntry list"

text \<open>The loop \<open>for i in range(entries_count)\<close> of \<open>DirectoryRecord.__init__\<close>.\<close>

fun read_entries :: "byte list \<Rightarrow> nat \<Rightarrow> nat \<Rightarrow> DirectoryEntry list \<Rightarrow> error + DirectoryEntry list" where
  "read_entries disk offset 0 entries = Inr entries"
| "read_entries disk offset (Suc n) entries =
     (case DirectoryEntry_init disk offset of
        Inl e \<Rightarrow> Inl e
      | Inr entry \<Rightarrow> read_entries disk (offset + 8) n (entries @ [entry]))"

text \<open>\<open>entries_count = int((self.size - B_NAMECOUNT) / DirectoryEntry.SIZE)\<close>\<close>

definition entries_count :: "nat \<Rightarrow> nat \<Rightarrow> int" where
  "entries_count self_size B_NAMECOUNT = int_truediv (int self_size - int B_NAMECOUNT) 8"

text \<open>FORMAT \<open><HHBB\<close>: W_SIZE, W_VERLIMIT, B_FLAGS, B_NAMECOUNT.\<close>

definition DirectoryRecord_init :: "byte list \<Rightarrow> nat \<Rightarrow> error + DirectoryRecord" where
  "DirectoryRecord_init disk offset =
     ebind (unpack_from 6 disk offset) (\<lambda>h.
       let W_SIZE = le_uint (slice h 0 2);
           B_NAMECOUNT = le_uint (slice h 5 6);
           offset1 = offset + 6;
           self_size = W_SIZE + 2;
           T_NAME = slice disk offset1 (offset1 + B_NAMECOUNT);
           offset2 = offset1 + B_NAMECOUNT
       in ebind (decode_ascii T_NAME) (\<lambda>name.
            let offset3 = (if offset2 AND 1 = 1 then offset2 + 1 else offset2)
            in ebind (read_entries disk offset3 (nat (entries_count self_size B_NAMECOUNT)) []) (\<lambda>entries.
                 Inr \<lparr>dr_size = self_size, dr_name = strip_dot name, dr_entries = entries\<rparr>)))"

section \<open>File headers\<close>

text \<open>One element of \<open>File.map\<close>: the dict with keys \<open>lbn\<close> and \<open>block_count\<close>.\<close>

record extent =
  lbn :: nat
  block_count :: nat

text \<open>\<open>f_name\<close> is \<open>None\<close> while the attribute \<open>name\<close> has not been assigned (it is
  assigned by \<open>read_ident\<close> only).\<close>

record File =
  f_fid :: FileID
  f_ext_fid :: FileID
  f_is_directory :: bool
  f_create_time :: real
  f_revision_time :: real
  f_name :: "string option"
  f_map :: "extent list"
  f_total_block_count :: nat
  f_size :: nat
  f_records :: "DirectoryRecord list"

text \<open>\<open>File.get_lbn_for_vbn\<close>: the loop over \<open>self.map\<close>, with \<open>vbn\<close> already decremented;
  falling out of the loop returns \<open>None\<close>.\<close>

fun get_lbn_loop :: "extent list \<Rightarrow> int \<Rightarrow> nat \<Rightarrow> nat option" where
  "get_lbn_loop [] vbn base_block_count = None"
| "get_lbn_loop (ptr # ptrs) vbn base_block_count =
     (if int base_block_count \<le> vbn \<and> vbn < int base_block_count + int (block_count ptr)
      then Some (lbn ptr + nat (vbn - int base_block_count))
      else get_lbn_loop ptrs vbn (base_block_count + block_count ptr))"

definition get_lbn_for_vbn :: "File \<Rightarrow> int \<Rightarrow> nat option" where
  "get_lbn_for_vbn self vbn = get_lbn_loop (f_map self) (vbn - 1) 0"

text \<open>The accumulated base of extent \<open>i\<close>: the block counts of the extents before it.\<close>

definition extent_base :: "extent list \<Rightarrow> nat \<Rightarrow> nat" where
  "extent_base m i = sum_list (map block_count (take i m))"

text \<open>A file whose \<open>total_block_count\<close> is the sum of the block counts of its map, as
  \<open>read_map\<close> leaves it.\<close>

definition map_decoded :: "File \<Rightarrow> bool" where
  "map_decoded f = (f_total_block_count f = sum_list (map block_count (f_map f)))"

text \<open>\<open>File.read_ident\<close>, FORMAT \<open><20sHQQQQ66s\<close> (120 bytes): T_FILENAME, W_REVISION, Q_CREATE,
  Q_REVDATE, Q_EXPDATE, Q_BAKDATE, T_FILENAMEEXT.\<close>

definition read_ident :: "File \<Rightarrow> byte list \<Rightarrow> nat \<Rightarrow> error + File" where
  "read_ident self disk offset =
     ebind (unpack_from 120 disk offset) (\<lambda>h.
       let T_FILENAME = slice h 0 20;
           Q_CREATE = le_uint (slice h 22 30);
           Q_REVDATE = le_uint (slice h 30 38);
           T_FILENAMEEXT = slice h 54 120
       in ebind (decode_ascii (T_FILENAME @ T_FILENAMEEXT)) (\<lambda>s.
            Inr (self\<lparr>f_create_time := VMStoUNIX Q_CREATE,
                      f_revision_time := VMStoUNIX Q_REVDATE,
                      f_name := Some (strip_dot (rsplit1_head CHR '';'' (strip s)))\<rparr>)))"

text \<open>
  The body of the \<open>while\<close> loop of \<open>File.read_map\<close>: the extent appended to the map and the
  number of bytes the offset advances by. \<open>V_FORMAT\<close> is a two-bit value, so the last
  branch is the source's \<open>elif V_FORMAT == 3\<close>. Format 3 is unpacked with the source's
  format string \<open>BBH\<close> (native mode, 4 bytes: two unsigned bytes and an aligned unsigned
  short, little-endian on the hosts the program runs on).
\<close>

definition read_map_pointer :: "byte list \<Rightarrow> nat \<Rightarrow> error + (extent \<times> nat)" where
  "read_map_pointer disk offset =
     ebind (index_byte disk (offset + 1)) (\<lambda>b1.
       let V_FORMAT = drop_bit 6 (unat b1 AND 0xC0)
       in if V_FORMAT = 0 then
            ebind (unpack_from 2 disk offset) (\<lambda>h.
              Inr (\<lparr>lbn = 0, block_count = 0\<rparr>, 2))
          else if V_FORMAT = 1 then
            ebind (unpack_from 4 disk offset) (\<lambda>h.
              let B_COUNT1 = le_uint (slice h 0 1);
                  V_HIGHLBN = le_uint (slice h 1 2) AND 0x3F;
                  W_LOWLBN = le_uint (slice h 2 4)
              in Inr (\<lparr>lbn = push_bit 16 V_HIGHLBN OR W_LOWLBN, block_count = B_COUNT1\<rparr>, 4))
          else if V_FORMAT = 2 then
            ebind (unpack_from 4 disk offset) (\<lambda>h.
              let V_COUNT2 = le_uint (slice h 0 2) AND 0x3FFF;
                  W_LBN2 = le_uint (slice h 2 4)
              in Inr (\<lparr>lbn = W_LBN2, block_count = V_COUNT2\<rparr>, 6))
          else
            ebind (unpack_from 4 disk offset) (\<lambda>h.
              let V_COUNT2 = le_uint (slice h 0 1) AND 0x3FFF;
                  W_LOWCOUNT = le_uint (slice h 1 2);
                  L_LBN3 = le_uint (slice h 2 4)
              in Inr (\<lparr>lbn = L_LBN3, block_count = push_bit 16 V_COUNT2 OR W_LOWCOUNT\<rparr>, 8)))"

function read_map_loop :: "File \<Rightarrow> byte list \<Rightarrow> nat \<Rightarrow> nat \<Rightarrow> error + File" where
  "read_map_loop self disk offset end_offset =
     (if offset < end_offset then
        (case read_map_pointer disk offset of
           Inl e \<Rightarrow> Inl e
         | Inr (ext, used) \<Rightarrow>
             read_map_loop
               (self\<lparr>f_map := f_map self @ [ext],
                     f_total_block_count := f_total_block_count self + block_count ext\<rparr>)
               disk (offset + used) end_offset)
      else Inr self)"
  by pat_completeness auto
termination
proof (relation "measure (\<lambda>(self, disk, offset, end_offset). end_offset - offset)")
  show "wf (measure (\<lambda>(self, disk, offset, end_offset). end_offset - offset))"
    by simp
next
  fix self :: File and disk offset end_offset x2 ext used
  assume "offset < end_offset" "read_map_pointer disk offset = Inr x2" "(ext, used) = x2"
  then have "used \<in> {2, 4, 6, 8}"
    unfolding read_map_pointer_def unpack_from_def index_byte_def
    by (auto simp: Let_def split: if_splits)
  with \<open>offset < end_offset\<close>
  show "((self\<lparr>f_map := f_map self @ [ext],
               f_total_block_count := f_total_block_count self + block_count ext\<rparr>,
          disk, offset + used, end_offset),
         (self, disk, offset, end_offset))
        \<in> measure (\<lambda>(self, disk, offset, end_offset). end_offset - offset)"
    by auto
qed

declare read_map_loop.simps [simp del]

definition read_map :: "File \<Rightarrow> byte list \<Rightarrow> nat \<Rightarrow> nat \<Rightarrow> error + File" where
  "read_map self disk offset B_MAP_INUSE =
     ebind (read_map_loop self disk offset (offset + B_MAP_INUSE * 2)) (\<lambda>self'.
       Inr (self'\<lparr>f_size := f_total_block_count self' * BLOCK_SIZE\<rparr>))"

text \<open>The inner loop \<open>for i in range(62)\<close> of \<open>File.read_directory_records\<close>; the record
  size is unpacked with the format \<open>h\<close>, a signed short.\<close>

fun read_block_records ::
  "byte list \<Rightarrow> nat \<Rightarrow> nat \<Rightarrow> DirectoryRecord list \<Rightarrow> error + DirectoryRecord list" where
  "read_block_records disk offset 0 records = Inr records"
| "read_block_records disk offset (Suc n) records =
     (case unpack_from 2 disk offset of
        Inl e \<Rightarrow> Inl e
      | Inr h \<Rightarrow>
          if sint (word_of_nat (le_uint h) :: 16 word) < 0 then Inr records
          else (case DirectoryRecord_init disk offset of
                  Inl e \<Rightarrow> Inl e
                | Inr record \<Rightarrow>
                    read_block_records disk (offset + dr_size record) n (records @ [record])))"

text \<open>The outer loop \<open>for vbn in range(1, self.total_block_count)\<close>; a VBN without a
  mapping makes \<open>lbn * BLOCK_SIZE\<close> raise TypeError.\<close>

fun read_directory_loop ::
  "File \<Rightarrow> byte list \<Rightarrow> nat list \<Rightarrow> DirectoryRecord list \<Rightarrow> error + DirectoryRecord list" where
  "read_directory_loop self disk [] records = Inr records"
| "read_directory_loop self disk (vbn # vbns) records =
     (case get_lbn_for_vbn self (int vbn) of
        None \<Rightarrow> Inl TypeError
      | Some l \<Rightarrow>
          (case read_block_records disk (l * BLOCK_SIZE) 62 records of
             Inl e \<Rightarrow> Inl e
           | Inr records' \<Rightarrow> read_directory_loop self disk vbns records'))"

definition read_directory_records :: "File \<Rightarrow> byte list \<Rightarrow> error + File" where
  "read_directory_records self disk =
     ebind (read_directory_loop self disk [1..<f_total_block_count self] (f_records self))
       (\<lambda>records. Inr (self\<lparr>f_records := records\<rparr>))"

text \<open>\<open>File.__init__\<close>, FORMAT \<open><BBBBHH6s6s32sI2xB\<close> (59 bytes): B_IDOFFSET, B_MPOFFSET,
  B_ACOFFSET, B_RSOFFSET, W_SEG_NUM, W_STRUCLEV, W_FID, W_EXT_FID, W_RECATTR, L_FILECHAR,
  B_MAP_INUSE.\<close>

definition File_init :: "byte list \<Rightarrow> nat \<Rightarrow> error + File" where
  "File_init disk offset =
     ebind (unpack_from 59 disk offset) (\<lambda>h.
       let B_IDOFFSET = le_uint (slice h 0 1);
           B_MPOFFSET = le_uint (slice h 1 2);
           L_FILECHAR = le_uint (slice h 52 56);
           B_MAP_INUSE = le_uint (slice h 58 59)
       in ebind (FileID_init (slice h 8 14)) (\<lambda>fid.
          ebind (FileID_init (slice h 14 20)) (\<lambda>ext_fid.
            let self0 = \<lparr>f_fid = fid, f_ext_fid = ext_fid,
                         f_is_directory = (L_FILECHAR AND 8192 = 8192),
                         f_create_time = 0, f_revision_time = 0, f_name = None,
                         f_map = [], f_total_block_count = 0, f_size = BLOCK_SIZE,
                         f_records = []\<rparr>
            in ebind (if B_IDOFFSET \<noteq> 0xFF then read_ident self0 disk (offset + B_IDOFFSET * 2)
                      else Inr self0) (\<lambda>self1.
               ebind (if B_MPOFFSET \<noteq> 0xFF
                      then read_map self1 disk (offset + B_MPOFFSET * 2) B_MAP_INUSE
                      else Inr self1) (\<lambda>self2.
                 if f_is_directory self2 then read_directory_records self2 disk
                 else Inr self2)))))"

text \<open>\<open>File.get_record_by_name\<close>: the first record with that name, or \<open>None\<close>.\<close>

definition get_record_by_name :: "File \<Rightarrow> string \<Rightarrow> DirectoryRecord option" where
  "get_record_by_name self name = find (\<lambda>r. dr_name r = name) (f_records self)"

section \<open>The volume\<close>

text \<open>
  \<open>File\<close> objects are mutable and \<open>read_home_block\<close> assigns to one of them after the scan
  (\<open>self.mfd.size = 666\<close>), so the volume keeps them in an explicit store: \<open>v_heap\<close> is the
  list of the \<open>File\<close> objects allocated by the scan, an object's address is its position, and
  \<open>v_mfd\<close> and the slots of \<open>v_files\<close> hold addresses. A slot of \<open>v_files\<close> is \<open>None\<close> as
  in the source. Python references never dangle: every address the code stores is below
  the length of the heap.
\<close>

record ODS2 =
  v_disk :: "byte list"
  v_mountpoint :: string
  v_structure_name :: string
  v_volume_name :: string
  v_owner_name :: string
  v_format :: string
  v_reserved_file_count :: nat
  v_bitmap_blocks :: nat
  v_index_file :: File
  v_heap :: "File list"
  v_mfd :: nat
  v_files :: "nat option list"

text \<open>The state of the scan loop of \<open>read_home_block\<close>: the store, \<open>self.mfd\<close> (\<open>None\<close>
  until a header named 000000.DIR is met), \<open>self.files\<close> and \<open>count\<close>.\<close>

record scan_state =
  ss_heap :: "File list"
  ss_mfd :: "nat option"
  ss_files :: "nat option list"
  ss_count :: nat

text \<open>
  One iteration of \<open>for vbn in range(1, self.index_file.total_block_count)\<close>; the result
  \<open>None\<close> is the \<open>break\<close>. The source calls \<open>File(self.disk, offset)\<close> twice: the first
  object is the one \<open>self.mfd\<close> may refer to, the second is the one stored in \<open>self.files\<close>.
\<close>

definition scan_step ::
  "byte list \<Rightarrow> File \<Rightarrow> nat \<Rightarrow> nat \<Rightarrow> scan_state \<Rightarrow> error + scan_state option" where
  "scan_step disk index_file bitmap_blocks vbn st =
     (case get_lbn_for_vbn index_file (int bitmap_blocks + int vbn) of
        None \<Rightarrow> Inl TypeError
      | Some l \<Rightarrow>
          let offset = l * BLOCK_SIZE
          in ebind (index_byte disk offset) (\<lambda>b0.
               if b0 = 0 then Inr None
               else
                 ebind (File_init disk offset) (\<lambda>file.
                   case f_name file of
                     None \<Rightarrow> Inl AttributeError
                   | Some name \<Rightarrow>
                       let a1 = length (ss_heap st);
                           heap1 = ss_heap st @ [file];
                           mfd' = (if name = ''000000.DIR'' then Some a1 else ss_mfd st);
                           index = int (file_number (f_fid file)) - 1
                       in ebind (File_init disk offset) (\<lambda>file2.
                            let a2 = length heap1;
                                heap2 = heap1 @ [file2]
                            in ebind (list_assign (ss_files st) index (Some a2)) (\<lambda>files'.
                                 Inr (Some \<lparr>ss_heap = heap2, ss_mfd = mfd', ss_files = files',
                                            ss_count = ss_count st + 1\<rparr>))))))"

fun scan_loop ::
  "byte list \<Rightarrow> File \<Rightarrow> nat \<Rightarrow> nat list \<Rightarrow> scan_state \<Rightarrow> error + scan_state" where
  "scan_loop disk index_file bitmap_blocks [] st = Inr st"
| "scan_loop disk index_file bitmap_blocks (vbn # vbns) st =
     (case scan_step disk index_file bitmap_blocks vbn st of
        Inl e \<Rightarrow> Inl e
      | Inr None \<Rightarrow> Inr st
      | Inr (Some st') \<Rightarrow> scan_loop disk index_file bitmap_blocks vbns st')"

text \<open>"Skip the first 3 clusters": the block counts of \<open>map[:3]\<close> are subtracted from
  \<open>total_block_count\<close> and the map becomes \<open>map[3:]\<close>. The count is only used as a list
  length and a range bound, where a negative Python integer acts as 0.\<close>

definition skip_clusters :: "File \<Rightarrow> File" where
  "skip_clusters index_file =
     index_file\<lparr>f_total_block_count :=
                  nat (int (f_total_block_count index_file)
                       - int (sum_list (map block_count (take 3 (f_map index_file))))),
                f_map := drop 3 (f_map index_file)\<rparr>"

text \<open>
  \<open>ODS2.read_home_block\<close>, FORMAT of 512 bytes at offset \<open>BLOCK_SIZE\<close>; the fields used are
  L_IBMAPLBN (bytes 24..27), W_IBMAPSIZE (32..33), W_RESFILES (34..35), T_STRUCNAME
  (460..471), T_VOLNAME (472..483), T_OWNERNAME (484..495) and T_FORMAT (496..507).
  The last statement, \<open>self.mfd.size = 666\<close>, raises AttributeError when no header was named
  000000.DIR (\<open>self.mfd\<close> is \<open>None\<close>), and otherwise updates the object \<open>self.mfd\<close> refers
  to.
\<close>

definition read_home_block :: "byte list \<Rightarrow> string \<Rightarrow> error + ODS2" where
  "read_home_block disk mountpoint =
     ebind (unpack_from 512 disk BLOCK_SIZE) (\<lambda>h.
       let L_IBMAPLBN = le_uint (slice h 24 28);
           W_IBMAPSIZE = le_uint (slice h 32 34);
           W_RESFILES = le_uint (slice h 34 36)
       in ebind (decode_ascii (slice h 460 472)) (\<lambda>structure_name.
          ebind (decode_ascii (slice h 472 484)) (\<lambda>volume_name.
          ebind (decode_ascii (slice h 484 496)) (\<lambda>owner_name.
          ebind (decode_ascii (slice h 496 508)) (\<lambda>format.
            let index_offset = (L_IBMAPLBN + W_IBMAPSIZE) * BLOCK_SIZE
            in ebind (File_init disk index_offset) (\<lambda>index_file0.
                 let index_file = skip_clusters index_file0;
                     total = f_total_block_count index_file
                 in ebind (scan_loop disk index_file W_IBMAPSIZE [1..<total]
                             \<lparr>ss_heap = [], ss_mfd = None,
                              ss_files = replicate total None, ss_count = 0\<rparr>) (\<lambda>st.
                      case ss_mfd st of
                        None \<Rightarrow> Inl AttributeError
                      | Some a \<Rightarrow>
                          Inr \<lparr>v_disk = disk, v_mountpoint = mountpoint,
                               v_structure_name = structure_name,
                               v_volume_name = volume_name,
                               v_owner_name = owner_name,
                               v_format = format,
                               v_reserved_file_count = W_RESFILES,
                               v_bitmap_blocks = W_IBMAPSIZE,
                               v_index_file = index_file,
                               v_heap = (ss_heap st)[a := (ss_heap st ! a)\<lparr>f_size := 666\<rparr>],
                               v_mfd = a,
                               v_files = ss_files st\<rparr>)))))))"

section \<open>Path resolution and the adaptor operations\<close>

text \<open>One iteration of \<open>for p in parts\<close> in \<open>get_file_by_path\<close>. \<open>file\<close> is an address or
  \<open>None\<close>; a method call or attribute access on \<open>None\<close> raises AttributeError.\<close>

definition follow_part :: "ODS2 \<Rightarrow> nat option \<Rightarrow> string \<Rightarrow> error + nat option" where
  "follow_part self file p =
     (case file of
        None \<Rightarrow> Inl AttributeError
      | Some a \<Rightarrow>
          (case get_record_by_name (v_heap self ! a) p of
             None \<Rightarrow> Inl AttributeError
           | Some rec \<Rightarrow>
               ebind (py_index (dr_entries rec) 0) (\<lambda>entry.
                 py_index (v_files self) (int (file_number (de_fid entry)) - 1))))"

fun follow_parts :: "ODS2 \<Rightarrow> nat option \<Rightarrow> string list \<Rightarrow> error + nat option" where
  "follow_parts self file [] = Inr file"
| "follow_parts self file (p # parts) =
     (case follow_part self file p of
        Inl e \<Rightarrow> Inl e
      | Inr file' \<Rightarrow> follow_parts self file' parts)"

definition path_parts :: "string \<Rightarrow> string list" where
  "path_parts path =
     (let path1 = (if path \<noteq> [] \<and> hd path = CHR ''/'' then tl path else path);
          path2 = (if path1 \<noteq> [] \<and> last path1 = CHR ''/'' then butlast path1 else path1)
      in if length path2 > 0 then split_on CHR ''/'' path2 else [])"

definition get_file_by_path :: "ODS2 \<Rightarrow> string \<Rightarrow> error + nat option" where
  "get_file_by_path self path = follow_parts self (Some (v_mfd self)) (path_parts path)"

text \<open>The dict returned by \<open>getattr\<close>. The owner of the image file, \<open>os.lstat(sys.argv[1])\<close>,
  is an input: the pair \<open>(st_uid, st_gid)\<close>. The permission bits 0o444 and 0o555 are
  0x124 and 0x16D.\<close>

record stat =
  st_size :: nat
  st_ctime :: real
  st_atime :: real
  st_mtime :: real
  st_mode :: nat
  st_nlink :: nat
  st_uid :: nat
  st_gid :: nat

abbreviation S_IFREG :: nat where
  "S_IFREG \<equiv> 0x8000"

abbreviation S_IFDIR :: nat where
  "S_IFDIR \<equiv> 0x4000"

text \<open>
  The four operations take the volume and return it with their result, so that the
  effect of a call on the volume is part of the model.
\<close>

definition getattr :: "ODS2 \<Rightarrow> nat \<times> nat \<Rightarrow> string \<Rightarrow> (error + stat) \<times> ODS2" where
  "getattr self disk_st path =
     (case get_file_by_path self path of
        Inl e \<Rightarrow> (Inl e, self)
      | Inr None \<Rightarrow> (Inl AttributeError, self)
      | Inr (Some a) \<Rightarrow>
          let file = v_heap self ! a;
              st = \<lparr>st_size = f_size file,
                    st_ctime = f_create_time file,
                    st_atime = f_revision_time file,
                    st_mtime = f_revision_time file,
                    st_mode = S_IFREG OR 0x124,
                    st_nlink = 0,
                    st_uid = fst disk_st,
                    st_gid = snd disk_st\<rparr>
          in (Inr (if f_is_directory file then st\<lparr>st_mode := S_IFDIR OR 0x16D\<rparr> else st), self))"

text \<open>The loop of \<open>readdir\<close> over \<open>file.records\<close>; \<open>r.entries[0]\<close> raises IndexError on
  a record without entries.\<close>

fun readdir_loop :: "nat \<Rightarrow> DirectoryRecord list \<Rightarrow> string list \<Rightarrow> error + string list" where
  "readdir_loop reserved_file_count [] dirents = Inr dirents"
| "readdir_loop reserved_file_count (r # rs) dirents =
     (case py_index (dr_entries r) 0 of
        Inl e \<Rightarrow> Inl e
      | Inr entry \<Rightarrow>
          if file_number (de_fid entry) \<le> reserved_file_count
          then readdir_loop reserved_file_count rs dirents
          else readdir_loop reserved_file_count rs (dirents @ [dr_name r]))"

definition readdir :: "ODS2 \<Rightarrow> string \<Rightarrow> (error + string list) \<times> ODS2" where
  "readdir self path =
     (case get_file_by_path self path of
        Inl e \<Rightarrow> (Inl e, self)
      | Inr None \<Rightarrow> (Inl AttributeError, self)
      | Inr (Some a) \<Rightarrow>
          (readdir_loop (v_reserved_file_count self) (f_records (v_heap self ! a)) [''.'', ''..''],
           self))"

definition readlink :: "ODS2 \<Rightarrow> string \<Rightarrow> string \<times> ODS2" where
  "readlink self path = (if path = ''/000000.DIR'' then v_mountpoint self else [], self)"

text \<open>
  The \<open>while\<close> loop of \<open>read\<close>. The offset is a multiple of \<open>BLOCK_SIZE\<close> when the loop is
  reached, so \<open>int(offset / BLOCK_SIZE)\<close> is \<open>offset div 512\<close>. A VBN without a mapping
  makes \<open>lbn * BLOCK_SIZE\<close> raise TypeError.
\<close>

function read_loop ::
  "byte list \<Rightarrow> File \<Rightarrow> int \<Rightarrow> int \<Rightarrow> nat \<Rightarrow> byte list \<Rightarrow> error + byte list" where
  "read_loop disk file offset end_offset data_offset data =
     (if offset < end_offset then
        (case get_lbn_for_vbn file (offset div 512 + 1) of
           None \<Rightarrow> Inl TypeError
         | Some l \<Rightarrow>
             let disk_offset = l * BLOCK_SIZE
             in read_loop disk file (offset + 512) end_offset (data_offset + BLOCK_SIZE)
                  (slice_assign data data_offset (data_offset + BLOCK_SIZE)
                     (slice disk disk_offset (disk_offset + BLOCK_SIZE))))
      else Inr data)"
  by pat_completeness auto
termination
  by (relation "measure (\<lambda>(disk, file, offset, end_offset, data_offset, data).
                  nat (end_offset - offset))") auto

declare read_loop.simps [simp del]

definition read :: "ODS2 \<Rightarrow> string \<Rightarrow> int \<Rightarrow> int \<Rightarrow> (error + byte list) \<times> ODS2" where
  "read self path len offset =
     (if offset mod 512 \<noteq> 0 then (Inr [], self)
      else
        (case get_file_by_path self path of
           Inl e \<Rightarrow> (Inl e, self)
         | Inr None \<Rightarrow> (Inr [], self)
         | Inr (Some a) \<Rightarrow>
             let file = v_heap self ! a;
                 end_offset = (if offset + len > int (f_size file) then int (f_size file)
                               else offset + len)
             in (read_loop (v_disk self) file offset end_offset 0 [], self)))"

text \<open>A call of the adaptor and its result; a sequence of calls threads the volume.\<close>

datatype op =
  Getattr "nat \<times> nat" string
| Readdir string
| Readlink string
| Read string int int

datatype result =
  Stat "error + stat"
| Dirents "error + string list"
| Link string
| Data "error + byte list"

fun call :: "ODS2 \<Rightarrow> op \<Rightarrow> result \<times> ODS2" where
  "call self (Getattr disk_st path) = (let (r, self') = getattr self disk_st path in (Stat r, self'))"
| "call self (Readdir path) = (let (r, self') = readdir self path in (Dirents r, self'))"
| "call self (Readlink path) = (let (r, self') = readlink self path in (Link r, self'))"
| "call self (Read path len offset) =
     (let (r, self') = read self path len offset in (Data r, self'))"

fun calls :: "ODS2 \<Rightarrow> op list \<Rightarrow> result list \<times> ODS2" where
  "calls self [] = ([], self)"
| "calls self (c # cs) =
     (let (r, self') = call self c; (rs, self'') = calls self' cs in (r # rs, self''))"

section \<open>Notions used in the statements\<close>

text \<open>The fields \<open>W_SIZE\<close> and \<open>B_NAMECOUNT\<close> of the directory record at an offset.\<close>

definition record_W_SIZE :: "byte list \<Rightarrow> nat \<Rightarrow> nat" where
  "record_W_SIZE disk offset = le_uint (slice disk offset (offset + 2))"

definition record_B_NAMECOUNT :: "byte list \<Rightarrow> nat \<Rightarrow> nat" where
  "record_B_NAMECOUNT disk offset = le_uint (slice disk (offset + 5) (offset + 6))"

text \<open>The number of entries of a directory record as the specification words it:
  \<open>(W_SIZE + 2 - fixed_header - B_NAMECOUNT) / 8\<close>, the fixed header being 6 bytes.\<close>

definition spec_entries_count :: "nat \<Rightarrow> nat \<Rightarrow> int" where
  "spec_entries_count W_SIZE B_NAMECOUNT = (int W_SIZE + 2 - 6 - int B_NAMECOUNT) div 8"

text \<open>The position a Python list of length \<open>n\<close> gives to the index \<open>file_number - 1\<close>:
  the index \<open>-1\<close> of file number 0 is the last slot.\<close>

definition slot_index :: "nat \<Rightarrow> nat \<Rightarrow> nat" where
  "slot_index n fnum = (if fnum = 0 then n - 1 else fnum - 1)"

text \<open>
  The invariant of the scan loop of \<open>read_home_block\<close>. Objects are allocated in pairs of
  equal value (the two \<open>File(self.disk, offset)\<close> calls of an iteration); \<open>self.mfd\<close> refers
  to a first one (an even address), the slots of \<open>self.files\<close> to second ones (odd
  addresses), each in the slot of its own file number; every decoded size is a multiple
  of 512; and the slot of the MFD's file number holds an object allocated after the MFD.
\<close>

definition scan_inv :: "scan_state \<Rightarrow> bool" where
  "scan_inv st =
     (even (length (ss_heap st))
      \<and> (\<forall>a<length (ss_heap st). f_size (ss_heap st ! a) mod 512 = 0)
      \<and> (\<forall>a. even a \<and> Suc a < length (ss_heap st) \<longrightarrow> ss_heap st ! a = ss_heap st ! Suc a)
      \<and> (\<forall>i<length (ss_files st). \<forall>a. ss_files st ! i = Some a \<longrightarrow>
            a < length (ss_heap st) \<and> odd a
            \<and> slot_index (length (ss_files st)) (file_number (f_fid (ss_heap st ! a))) = i)
      \<and> (\<forall>m. ss_mfd st = Some m \<longrightarrow>
            even m \<and> Suc m < length (ss_heap st)
            \<and> slot_index (length (ss_files st)) (file_number (f_fid (ss_heap st ! m)))
                < length (ss_files st)
            \<and> (\<exists>a'. ss_files st ! slot_index (length (ss_files st))
                                   (file_number (f_fid (ss_heap st ! m))) = Some a'
                     \<and> m < a')))"

text \<open>Every extent of the file lies inside the image.\<close>

definition extents_on_disk :: "byte list \<Rightarrow> File \<Rightarrow> bool" where
  "extents_on_disk disk f =
     list_all (\<lambda>e. (lbn e + block_count e) * BLOCK_SIZE \<le> length disk) (f_map f)"

section \<open>Example inputs\<close>

text \<open>A file whose map is \<open>[(lbn=100, count=3), (lbn=200, count=2)]\<close>.\<close>

definition two_extent_file :: File where
  "two_extent_file =
     \<lparr>f_fid = \<lparr>file_number = 9, sequence_number = 1, relative_volume_number = 0\<rparr>,
      f_ext_fid = \<lparr>file_number = 0, sequence_number = 0, relative_volume_number = 0\<rparr>,
      f_is_directory = False, f_create_time = 0, f_revision_time = 0, f_name = None,
      f_map = [\<lparr>lbn = 100, block_count = 3\<rparr>, \<lparr>lbn = 200, block_count = 2\<rparr>],
      f_total_block_count = 5, f_size = 2560, f_records = []\<rparr>"

text \<open>
  A volume image of twelve blocks: boot block, home block (index bitmap at LBN 2 with size
  0, four reserved files), the header of the index file, the headers of 000000.DIR (file
  4, two blocks at LBN 8), A.TXT (file 5, one block at LBN 10), B.DAT (file 6, no map
  area) and D.DIR (file 7, a directory of one block at LBN 11), an unused header slot,
  the two blocks of 000000.DIR, the block of A.TXT and the block of D.DIR. The values
  after the image are what the decoder makes of it.
\<close>

definition boot_block :: "byte list" where
  "boot_block = replicate 512 0"

definition home_block :: "byte list" where
  "home_block = replicate 24 0 @ [2, 0, 0, 0] @ replicate 4 0 @ [0, 0, 4, 0] @ replicate 424 0
     @ replicate 48 0x20 @ replicate 4 0"

definition index_header :: "byte list" where
  "index_header = [0xFF, 30, 0xFF, 0xFF, 0, 0, 2, 1, 1, 0, 1, 0, 0, 0] @ replicate 44 0
     @ [8, 0, 1, 0x40, 0, 0, 1, 0x40, 1, 0, 1, 0x40, 2, 0, 8, 0x40, 3, 0] @ replicate 436 0"

definition mfd_header :: "byte list" where
  "mfd_header = [30, 90, 0xFF, 0xFF, 0, 0, 2, 1, 4, 0, 4, 0, 0, 0] @ replicate 38 0
     @ [0, 0x20, 0, 0, 0, 0, 2, 0]
     @ [0x30, 0x30, 0x30, 0x30, 0x30, 0x30, 0x2E, 0x44, 0x49, 0x52, 0x3B, 0x31] @ replicate 8 0x20
     @ [1, 0] @ replicate 32 0 @ replicate 66 0x20
     @ [2, 0x40, 8, 0] @ replicate 328 0"

definition a_txt_header :: "byte list" where
  "a_txt_header = [30, 90, 0xFF, 0xFF, 0, 0, 2, 1, 5, 0, 1, 0, 0, 0] @ replicate 38 0
     @ [0, 0, 0, 0, 0, 0, 2, 0]
     @ [0x41, 0x2E, 0x54, 0x58, 0x54, 0x3B, 0x31] @ replicate 13 0x20
     @ [1, 0] @ replicate 32 0 @ replicate 66 0x20
     @ [1, 0x40, 10, 0] @ replicate 328 0"

definition b_dat_header :: "byte list" where
  "b_dat_header = [30, 0xFF, 0xFF, 0xFF, 0, 0, 2, 1, 6, 0, 1, 0, 0, 0] @ replicate 38 0
     @ [0, 0, 0, 0, 0, 0, 0, 0]
     @ [0x42, 0x2E, 0x44, 0x41, 0x54, 0x3B, 0x31] @ replicate 13 0x20
     @ [1, 0] @ replicate 32 0 @ replicate 66 0x20
     @ replicate 332 0"

definition d_dir_header :: "byte list" where
  "d_dir_header = [30, 90, 0xFF, 0xFF, 0, 0, 2, 1, 7, 0, 1, 0, 0, 0] @ replicate 38 0
     @ [0, 0x20, 0, 0, 0, 0, 2, 0]
     @ [0x44, 0x2E, 0x44, 0x49, 0x52, 0x3B, 0x31] @ replicate 13 0x20
     @ [1, 0] @ replicate 32 0 @ replicate 66 0x20
     @ [1, 0x40, 11, 0] @ replicate 328 0"

definition mfd_block :: "byte list" where
  "mfd_block =
     [22, 0, 1, 0, 0, 10, 0x30, 0x30, 0x30, 0x30, 0x30, 0x30, 0x2E, 0x44, 0x49, 0x52,
        1, 0, 4, 0, 4, 0, 0, 0,
      18, 0, 1, 0, 0, 5, 0x41, 0x2E, 0x54, 0x58, 0x54, 0, 1, 0, 5, 0, 1, 0, 0, 0,
      18, 0, 1, 0, 0, 5, 0x42, 0x2E, 0x44, 0x41, 0x54, 0, 1, 0, 6, 0, 1, 0, 0, 0,
      18, 0, 1, 0, 0, 5, 0x44, 0x2E, 0x44, 0x49, 0x52, 0, 1, 0, 7, 0, 1, 0, 0, 0,
      0xFF, 0xFF] @ replicate 426 0"

definition d_dir_block :: "byte list" where
  "d_dir_block =
     [18, 0, 1, 0, 0, 5, 0x43, 0x2E, 0x54, 0x58, 0x54, 0, 1, 0, 5, 0, 1, 0, 0, 0,
      0xFF, 0xFF] @ replicate 490 0"

definition data_block :: "byte list" where
  "data_block = [0x48, 0x45, 0x4C, 0x4C, 0x4F] @ replicate 507 0"

definition example_image :: "byte list" where
  "example_image = boot_block @ home_block @ index_header @ mfd_header @ a_txt_header @ b_dat_header
     @ d_dir_header @ replicate 512 0 @ mfd_block @ replicate 512 0 @ data_block @ d_dir_block"

definition index_file0 :: File where
  "index_file0 =
     \<lparr>f_fid = \<lparr>file_number = 1, sequence_number = 1, relative_volume_number = 0\<rparr>,
      f_ext_fid = \<lparr>file_number = 0, sequence_number = 0, relative_volume_number = 0\<rparr>,
      f_is_directory = False, f_create_time = 0, f_revision_time = 0,
      f_name = None,
      f_map = [\<lparr>lbn = 0, block_count = 1\<rparr>, \<lparr>lbn = 1, block_count = 1\<rparr>, \<lparr>lbn = 2, block_count = 1\<rparr>, \<lparr>lbn = 3, block_count = 8\<rparr>],
      f_total_block_count = 11, f_size = 5632,
      f_records = []\<rparr>"

definition mfd_file :: File where
  "mfd_file =
     \<lparr>f_fid = \<lparr>file_number = 4, sequence_number = 4, relative_volume_number = 0\<rparr>,
      f_ext_fid = \<lparr>file_number = 0, sequence_number = 0, relative_volume_number = 0\<rparr>,
      f_is_directory = True, f_create_time = VMStoUNIX 0, f_revision_time = VMStoUNIX 0,
      f_name = Some ''000000.DIR'',
      f_map = [\<lparr>lbn = 8, block_count = 2\<rparr>],
      f_total_block_count = 2, f_size = 1024,
      f_records = [\<lparr>dr_size = 24, dr_name = ''000000.DIR'', dr_entries = [\<lparr>de_fid = \<lparr>file_number = 4, sequence_number = 4, relative_volume_number = 0\<rparr>\<rparr>]\<rparr>,
         \<lparr>dr_size = 20, dr_name = ''A.TXT'', dr_entries = [\<lparr>de_fid = \<lparr>file_number = 5, sequence_number = 1, relative_volume_number = 0\<rparr>\<rparr>]\<rparr>,
         \<lparr>dr_size = 20, dr_name = ''B.DAT'', dr_entries = [\<lparr>de_fid = \<lparr>file_number = 6, sequence_number = 1, relative_volume_number = 0\<rparr>\<rparr>]\<rparr>,
         \<lparr>dr_size = 20, dr_name = ''D.DIR'', dr_entries = [\<lparr>de_fid = \<lparr>file_number = 7, sequence_number = 1, relative_volume_number = 0\<rparr>\<rparr>]\<rparr>]\<rparr>"

definition a_txt_file :: File where
  "a_txt_file =
     \<lparr>f_fid = \<lparr>file_number = 5, sequence_number = 1, relative_volume_number = 0\<rparr>,
      f_ext_fid = \<lparr>file_number = 0, sequence_number = 0, relative_volume_number = 0\<rparr>,
      f_is_directory = False, f_create_time = VMStoUNIX 0, f_revision_time = VMStoUNIX 0,
      f_name = Some ''A.TXT'',
      f_map = [\<lparr>lbn = 10, block_count = 1\<rparr>],
      f_total_block_count = 1, f_size = 512,
      f_records = []\<rparr>"

definition b_dat_file :: File where
  "b_dat_file =
     \<lparr>f_fid = \<lparr>file_number = 6, sequence_number = 1, relative_volume_number = 0\<rparr>,
      f_ext_fid = \<lparr>file_number = 0, sequence_number = 0, relative_volume_number = 0\<rparr>,
      f_is_directory = False, f_create_time = VMStoUNIX 0, f_revision_time = VMStoUNIX 0,
      f_name = Some ''B.DAT'',
      f_map = [],
      f_total_block_count = 0, f_size = 512,
      f_records = []\<rparr>"

definition d_dir_file :: File where
  "d_dir_file =
     \<lparr>f_fid = \<lparr>file_number = 7, sequence_number = 1, relative_volume_number = 0\<rparr>,
      f_ext_fid = \<lparr>file_number = 0, sequence_number = 0, relative_volume_number = 0\<rparr>,
      f_is_directory = True, f_create_time = VMStoUNIX 0, f_revision_time = VMStoUNIX 0,
      f_name = Some ''D.DIR'',
      f_map = [\<lparr>lbn = 11, block_count = 1\<rparr>],
      f_total_block_count = 1, f_size = 512,
      f_records = []\<rparr>"

definition example_volume :: ODS2 where
  "example_volume =
     \<lparr>v_disk = example_image, v_mountpoint = ''/mnt'',
      v_structure_name = replicate 12 CHR '' '', v_volume_name = replicate 12 CHR '' '',
      v_owner_name = replicate 12 CHR '' '', v_format = replicate 12 CHR '' '',
      v_reserved_file_count = 4, v_bitmap_blocks = 0,
      v_index_file = skip_clusters index_file0,
      v_heap = [mfd_file\<lparr>f_size := 666\<rparr>, mfd_file, a_txt_file, a_txt_file,
                b_dat_file, b_dat_file, d_dir_file, d_dir_file],
      v_mfd = 0,
      v_files = [None, None, None, Some 1, Some 3, Some 5, Some 7, None]\<rparr>"

text \<open>
  A second image, of nine blocks: the boot block, home block, index-file header and
  000000.DIR header of the first image, followed by zero-filled blocks, so that the block
  of the directory (LBN 8) is zero-filled. A record read from zero bytes has \<open>W_SIZE = 0\<close>,
  an empty name and no entries.
\<close>

definition zero_dir_image :: "byte list" where
  "zero_dir_image = boot_block @ home_block @ index_header @ mfd_header @ replicate 2560 0"

definition empty_record :: DirectoryRecord where
  "empty_record = \<lparr>dr_size = 2, dr_name = [], dr_entries = []\<rparr>"

definition zero_dir_mfd :: File where
  "zero_dir_mfd = mfd_file\<lparr>f_records := replicate 62 empty_record\<rparr>"


text \<open>A format-3 retrieval pointer: \<open>W_COUNT2_AND_FMT = 0xC001\<close>, \<open>W_LOWCOUNT = 2\<close>,
  \<open>L_LBN3 = 0x1234\<close>.\<close>

definition format3_pointer :: "byte list" where
  "format3_pointer = [0x01, 0xC0, 0x02, 0x00, 0x34, 0x12, 0x00, 0x00]"

text \<open>The format-3 pointer as the specification words it: 8 bytes, little-endian
  \<open>u16 W_COUNT2_AND_FMT, u16 W_LOWCOUNT, u32 L_LBN3\<close>.\<close>

definition spec_format3_pointer :: "byte list \<Rightarrow> nat \<Rightarrow> error + (extent \<times> nat)" where
  "spec_format3_pointer disk offset =
     ebind (unpack_from 8 disk offset) (\<lambda>h.
       let W_COUNT2 = le_uint (slice h 0 2);
           W_LOWCOUNT = le_uint (slice h 2 4);
           L_LBN3 = le_uint (slice h 4 8)
       in Inr (\<lparr>lbn = L_LBN3,
                block_count = push_bit 16 (W_COUNT2 AND 0x3FFF) OR W_LOWCOUNT\<rparr>, 8))"

text \<open>A directory record with \<open>W_SIZE = 6\<close> and an empty name, followed by 8 more bytes.\<close>

definition short_record :: "byte list" where
  "short_record = [6, 0, 1, 0, 0, 0, 1, 0, 5, 0, 1, 0, 0, 0]"

section \<open>Verification\<close>

lemma get_lbn_loop_Some:
  "get_lbn_loop m v b = Some r \<Longrightarrow>
     \<exists>i<length m. int (b + extent_base m i) \<le> v
        \<and> v < int (b + extent_base m i) + int (block_count (m ! i))
        \<and> r = lbn (m ! i) + nat (v - int (b + extent_base m i))"
proof (induction m arbitrary: b)
  case Nil
  then show ?case by simp
next
  case (Cons ptr ptrs)
  show ?case
  proof (cases "int b \<le> v \<and> v < int b + int (block_count ptr)")
    case True
    with Cons.prems have "r = lbn ptr + nat (v - int b)" by simp
    with True show ?thesis
      by (intro exI [of _ 0]) (simp add: extent_base_def)
  next
    case False
    with Cons.prems have "get_lbn_loop ptrs v (b + block_count ptr) = Some r" by simp
    from Cons.IH [OF this] obtain i where i: "i < length ptrs"
      "int (b + block_count ptr + extent_base ptrs i) \<le> v"
      "v < int (b + block_count ptr + extent_base ptrs i) + int (block_count (ptrs ! i))"
      "r = lbn (ptrs ! i) + nat (v - int (b + block_count ptr + extent_base ptrs i))"
      by blast
    then show ?thesis
      by (intro exI [of _ "Suc i"]) (simp add: extent_base_def add.assoc)
  qed
qed

lemma get_lbn_loop_defined:
  "int b \<le> v \<Longrightarrow> v < int (b + sum_list (map block_count m)) \<Longrightarrow> \<exists>r. get_lbn_loop m v b = Some r"
proof (induction m arbitrary: b)
  case Nil
  then show ?case by simp
next
  case (Cons ptr ptrs)
  show ?case
  proof (cases "v < int b + int (block_count ptr)")
    case True
    with Cons.prems show ?thesis by simp
  next
    case False
    with Cons.prems have "\<exists>r. get_lbn_loop ptrs v (b + block_count ptr) = Some r"
      by (intro Cons.IH) simp_all
    with False show ?thesis by simp
  qed
qed

lemma get_lbn_loop_None:
  "\<not> (\<exists>i<length m. int (b + extent_base m i) \<le> v
        \<and> v < int (b + extent_base m i) + int (block_count (m ! i))) \<Longrightarrow>
   get_lbn_loop m v b = None"
  using get_lbn_loop_Some [of m v b] by (cases "get_lbn_loop m v b") auto

lemma get_lbn_loop_below: "v < int b \<Longrightarrow> get_lbn_loop m v b = None"
  by (induction m arbitrary: b) auto

lemma get_lbn_loop_above:
  "int (b + sum_list (map block_count m)) \<le> v \<Longrightarrow> get_lbn_loop m v b = None"
  by (induction m arbitrary: b) (auto simp: add.assoc)

subsection \<open>VBN to LBN lookup\<close>

text \<open>
  C1. For a file whose \<open>total_block_count\<close> is the sum of the block counts of its extent
  map, every VBN \<open>v\<close> from 1 to \<open>total_block_count\<close> has a lookup result: there is an
  extent \<open>i\<close> with accumulated base \<open>b\<close> such that \<open>v - 1\<close> lies in \<open>[b, b + count)\<close> and the
  result is \<open>lbn + (v - 1 - b)\<close>. A VBN that lies in no extent, in particular \<open>v \<le> 0\<close> or
  \<open>v > total_block_count\<close>, has the result \<open>None\<close>.
\<close>

theorem get_lbn_for_vbn_correct:
  assumes "map_decoded f"
  shows "(1 \<le> v \<and> v \<le> int (f_total_block_count f) \<longrightarrow>
            (\<exists>i<length (f_map f).
               int (extent_base (f_map f) i) \<le> v - 1 \<and>
               v - 1 < int (extent_base (f_map f) i) + int (block_count (f_map f ! i)) \<and>
               get_lbn_for_vbn f v =
                 Some (lbn (f_map f ! i) + nat (v - 1 - int (extent_base (f_map f) i)))))
       \<and> ((\<forall>i<length (f_map f).
              \<not> (int (extent_base (f_map f) i) \<le> v - 1 \<and>
                 v - 1 < int (extent_base (f_map f) i) + int (block_count (f_map f ! i)))) \<longrightarrow>
            get_lbn_for_vbn f v = None)
       \<and> (v \<le> 0 \<or> int (f_total_block_count f) < v \<longrightarrow> get_lbn_for_vbn f v = None)"
proof (intro conjI impI)
  assume v: "1 \<le> v \<and> v \<le> int (f_total_block_count f)"
  with assms have "int 0 \<le> v - 1" "v - 1 < int (0 + sum_list (map block_count (f_map f)))"
    by (simp_all add: map_decoded_def)
  from get_lbn_loop_defined [OF this] obtain r where r: "get_lbn_loop (f_map f) (v - 1) 0 = Some r"
    by blast
  from get_lbn_loop_Some [OF r] r
  show "\<exists>i<length (f_map f).
          int (extent_base (f_map f) i) \<le> v - 1 \<and>
          v - 1 < int (extent_base (f_map f) i) + int (block_count (f_map f ! i)) \<and>
          get_lbn_for_vbn f v =
            Some (lbn (f_map f ! i) + nat (v - 1 - int (extent_base (f_map f) i)))"
    by (auto simp: get_lbn_for_vbn_def)
next
  assume "\<forall>i<length (f_map f).
            \<not> (int (extent_base (f_map f) i) \<le> v - 1 \<and>
               v - 1 < int (extent_base (f_map f) i) + int (block_count (f_map f ! i)))"
  then show "get_lbn_for_vbn f v = None"
    unfolding get_lbn_for_vbn_def by (intro get_lbn_loop_None) simp
next
  assume "v \<le> 0 \<or> int (f_total_block_count f) < v"
  then show "get_lbn_for_vbn f v = None"
  proof
    assume "v \<le> 0"
    then show ?thesis
      unfolding get_lbn_for_vbn_def by (intro get_lbn_loop_below) simp
  next
    assume "int (f_total_block_count f) < v"
    with assms show ?thesis
      unfolding get_lbn_for_vbn_def by (intro get_lbn_loop_above) (simp add: map_decoded_def)
  qed
qed

theorem get_lbn_for_vbn_correct_witness:
  "map_decoded two_extent_file
   \<and> (1::int) \<le> 4 \<and> 4 \<le> int (f_total_block_count two_extent_file)
   \<and> get_lbn_for_vbn two_extent_file 4 = Some 200
   \<and> int (f_total_block_count two_extent_file) < 6
   \<and> get_lbn_for_vbn two_extent_file 6 = None"
proof -
  have d: "map_decoded two_extent_file"
    by (simp add: map_decoded_def two_extent_file_def)
  have n: "\<forall>i<length (f_map two_extent_file).
         \<not> (int (extent_base (f_map two_extent_file) i) \<le> 6 - 1 \<and>
            6 - 1 < int (extent_base (f_map two_extent_file) i)
                      + int (block_count (f_map two_extent_file ! i)))"
    by (simp add: two_extent_file_def extent_base_def less_Suc_eq all_conj_distrib)
  from get_lbn_for_vbn_correct [OF d, of 4] get_lbn_for_vbn_correct [OF d, of 6] d n
  show ?thesis
    by (simp add: two_extent_file_def get_lbn_for_vbn_def)
qed

subsection \<open>The adaptor operations leave the volume unchanged\<close>

lemma call_frame: "snd (call self c) = self"
  by (cases c)
    (auto simp: getattr_def readdir_def readlink_def read_def Let_def
          split: sum.splits option.splits prod.splits)

text \<open>
  C9. Every sequence of \<open>getattr\<close>, \<open>readdir\<close>, \<open>readlink\<close> and \<open>read\<close> calls returns the volume
  it was given: the image bytes, the file table, the store of headers with the MFD and
  its size, the reserved-file count and every decoded record are the same after the calls
  as before.
\<close>

theorem calls_frame: "snd (calls self cs) = self"
proof (induction cs arbitrary: self)
  case Nil
  show ?case by simp
next
  case (Cons c cs)
  obtain r self' where c: "call self c = (r, self')"
    by (cases "call self c")
  with call_frame [of self c] have "self' = self" by simp
  with c Cons.IH [of self] show ?case
    by (cases "calls self cs") simp
qed

subsection \<open>Decoders and reads\<close>

lemma ebind_Inr_iff: "ebind m f = Inr r \<longleftrightarrow> (\<exists>v. m = Inr v \<and> f v = Inr r)"
  by (cases m) auto

lemma read_entries_length:
  "read_entries disk offset n es = Inr r \<Longrightarrow> length r = length es + n"
  by (induction n arbitrary: offset es) (auto split: sum.splits)

lemma slice_slice_header:
  "slice (slice disk offset (offset + 6)) 0 2 = slice disk offset (offset + 2)"
  "slice (slice disk offset (offset + 6)) 5 6 = slice disk (offset + 5) (offset + 6)"
  by (simp_all add: slice_def drop_take add.commute)

lemma int_truediv_8: "int_truediv a 8 = (if 0 \<le> a then a div 8 else - ((- a) div 8))"
  by (auto simp: int_truediv_def sgn_if)

text \<open>
  C6 (as amended). A decoded directory record has \<open>max 0 (trunc ((W_SIZE + 2 - B_NAMECOUNT) / 8))\<close>
  entries: the decoder does not subtract the fixed header. For a record whose size is
  \<open>6 + B_NAMECOUNT + pad + 8 k\<close> with \<open>pad \<le> 1\<close> this is \<open>k\<close>, the count the specification
  words.
\<close>

theorem DirectoryRecord_entries:
  assumes "DirectoryRecord_init disk offset = Inr r"
  shows "int (length (dr_entries r)) =
           max 0 (int_truediv (int (record_W_SIZE disk offset) + 2
                               - int (record_B_NAMECOUNT disk offset)) 8)
       \<and> (\<forall>k pad. record_W_SIZE disk offset + 2 = 6 + record_B_NAMECOUNT disk offset + pad + 8 * k
             \<and> pad \<le> 1 \<longrightarrow>
             length (dr_entries r) = k
             \<and> spec_entries_count (record_W_SIZE disk offset) (record_B_NAMECOUNT disk offset) = int k)"
proof -
  let ?W = "record_W_SIZE disk offset" and ?N = "record_B_NAMECOUNT disk offset"
  from assms obtain name entries off3 where
    e: "read_entries disk off3 (nat (entries_count (?W + 2) ?N)) [] = Inr entries"
    and r: "r = \<lparr>dr_size = ?W + 2, dr_name = strip_dot name, dr_entries = entries\<rparr>"
    unfolding DirectoryRecord_init_def unpack_from_def record_W_SIZE_def record_B_NAMECOUNT_def
    by (auto simp: Let_def ebind_Inr_iff slice_slice_header split: if_splits)
  from read_entries_length [OF e] r
  have len: "length (dr_entries r) = nat (entries_count (?W + 2) ?N)" by simp
  then have 1: "int (length (dr_entries r)) = max 0 (int_truediv (int ?W + 2 - int ?N) 8)"
    by (simp add: entries_count_def max_def add.commute)
  have 2: "length (dr_entries r) = k \<and> spec_entries_count ?W ?N = int k"
    if "?W + 2 = 6 + ?N + pad + 8 * k" "pad \<le> 1" for k pad
  proof -
    from that have a: "int (?W + 2) - int ?N = 6 + int pad + 8 * int k"
      and b: "int ?W + 2 - 6 - int ?N = int pad + 8 * int k" by linarith+
    from that(2) have c: "(6 + int pad + 8 * int k) div 8 = int k"
      and d: "(int pad + 8 * int k) div 8 = int k" by simp_all
    have ec: "entries_count (?W + 2) ?N = int k"
      unfolding entries_count_def a int_truediv_8 using c by simp
    have sp: "spec_entries_count ?W ?N = int k"
      unfolding spec_entries_count_def b using d by simp
    from len ec sp show ?thesis by simp
  qed
  from 1 2 show ?thesis by blast
qed


lemma py_index_0_Nil: "py_index [] 0 = Inl IndexError"
  by (simp add: py_index_def)



lemma read_map_loop_fields:
  "read_map_loop self disk offset end_offset = Inr f \<Longrightarrow>
   f_size f = f_size self \<and> f_records f = f_records self \<and> f_name f = f_name self
   \<and> f_fid f = f_fid self \<and> f_is_directory f = f_is_directory self
   \<and> (map_decoded self \<longrightarrow> map_decoded f)"
proof (induction self disk offset end_offset rule: read_map_loop.induct)
  case (1 self disk offset end_offset)
  show ?case
  proof (cases "offset < end_offset")
    case False
    with "1.prems" show ?thesis by (simp add: read_map_loop.simps)
  next
    case True
    with "1.prems" obtain ext used where
      p: "read_map_pointer disk offset = Inr (ext, used)"
      and l: "read_map_loop (self\<lparr>f_map := f_map self @ [ext],
                f_total_block_count := f_total_block_count self + block_count ext\<rparr>)
              disk (offset + used) end_offset = Inr f"
      by (subst (asm) read_map_loop.simps) (auto split: sum.splits)
    from "1.IH" [OF True p refl l] show ?thesis
      by (auto simp: map_decoded_def)
  qed
qed

lemma read_map_result:
  "read_map self disk offset n = Inr f \<Longrightarrow>
   f_size f = f_total_block_count f * 512 \<and> f_records f = f_records self \<and> f_name f = f_name self
   \<and> f_fid f = f_fid self \<and> f_is_directory f = f_is_directory self
   \<and> (map_decoded self \<longrightarrow> map_decoded f)"
proof -
  assume "read_map self disk offset n = Inr f"
  then obtain v where v: "read_map_loop self disk offset (offset + n * 2) = Inr v"
    and f: "f = v\<lparr>f_size := f_total_block_count v * BLOCK_SIZE\<rparr>"
    unfolding read_map_def by (auto simp: ebind_Inr_iff)
  from read_map_loop_fields [OF v] f show ?thesis
    by (simp add: map_decoded_def)
qed

lemma read_ident_result:
  "read_ident self disk offset = Inr f \<Longrightarrow>
   f_size f = f_size self \<and> f_map f = f_map self
   \<and> f_total_block_count f = f_total_block_count self \<and> f_records f = f_records self
   \<and> f_fid f = f_fid self \<and> f_is_directory f = f_is_directory self"
  unfolding read_ident_def by (auto simp: ebind_Inr_iff Let_def)

lemma read_directory_records_result:
  "read_directory_records self disk = Inr f \<Longrightarrow>
   f_size f = f_size self \<and> f_map f = f_map self
   \<and> f_total_block_count f = f_total_block_count self \<and> f_name f = f_name self
   \<and> f_fid f = f_fid self \<and> f_is_directory f = f_is_directory self"
  unfolding read_directory_records_def by (auto simp: ebind_Inr_iff)

lemma slice_one: "i < length xs \<Longrightarrow> slice xs i (Suc i) = [xs ! i]"
  by (simp add: slice_def Cons_nth_drop_Suc [symmetric])

lemma slice_slice:
  "a + n \<le> m \<Longrightarrow> slice (slice xs off (off + m)) a (a + n) = slice xs (off + a) (off + a + n)"
  by (simp add: slice_def drop_take min_def add.commute)

lemma File_init_cases:
  assumes "File_init disk offset = Inr f"
  shows "map_decoded f
       \<and> (if disk ! (offset + 1) = 0xFF
          then f_map f = [] \<and> f_total_block_count f = 0 \<and> f_size f = 512
          else f_size f = f_total_block_count f * 512)"
proof -
  from assms obtain h where h: "unpack_from 59 disk offset = Inr h"
    unfolding File_init_def by (auto simp: ebind_Inr_iff)
  then have len: "offset + 59 \<le> length disk" and hh: "h = slice disk offset (offset + 59)"
    by (auto simp: unpack_from_def split: if_splits)
  have mp: "le_uint (slice h 1 2) = unat (disk ! (offset + 1))"
  proof -
    from len have "slice h 1 2 = slice disk (offset + 1) (Suc (offset + 1))"
      unfolding hh using slice_slice [of 1 1 59 disk offset] by (simp add: numeral_2_eq_2)
    with len show ?thesis by (simp add: slice_one)
  qed
  have ff: "unat (disk ! (offset + 1)) = 255 \<longleftrightarrow> disk ! (offset + 1) = 0xFF"
    using word_unat_eq_iff [of "disk ! (offset + 1)" "0xFF :: byte"] by simp
  let ?self0 = "\<lambda>h fid ext_fid.
      \<lparr>f_fid = fid, f_ext_fid = ext_fid,
       f_is_directory = (le_uint (slice h 52 56) AND 8192 = 8192),
       f_create_time = 0, f_revision_time = 0, f_name = None,
       f_map = [], f_total_block_count = 0, f_size = BLOCK_SIZE,
       f_records = []\<rparr>"
  from assms obtain h' fid ext_fid self1 self2 where
    h': "unpack_from 59 disk offset = Inr h'"
    and s1': "(if le_uint (slice h' 0 1) \<noteq> 0xFF
              then read_ident (?self0 h' fid ext_fid) disk (offset + le_uint (slice h' 0 1) * 2)
              else Inr (?self0 h' fid ext_fid)) = Inr self1"
    and s2': "(if le_uint (slice h' 1 2) \<noteq> 0xFF
              then read_map self1 disk (offset + le_uint (slice h' 1 2) * 2) (le_uint (slice h' 58 59))
              else Inr self1) = Inr self2"
    and s3: "(if f_is_directory self2 then read_directory_records self2 disk else Inr self2) = Inr f"
    unfolding File_init_def Let_def ebind_Inr_iff by blast
  from h h' have hh': "h' = h" by simp
  define self0 where "self0 = ?self0 h fid ext_fid"
  have s0: "f_map self0 = []" "f_total_block_count self0 = 0" "f_size self0 = 512"
    by (simp_all add: self0_def)
  note s1 = s1' [unfolded hh', folded self0_def]
  note s2 = s2' [unfolded hh']
  from s0 s1 have p1: "f_map self1 = []" "f_total_block_count self1 = 0" "f_size self1 = 512"
    by (auto split: if_splits dest: read_ident_result)
  then have d1: "map_decoded self1" by (simp add: map_decoded_def)
  from s3 have p3: "f_map f = f_map self2" "f_total_block_count f = f_total_block_count self2"
    "f_size f = f_size self2"
    by (auto split: if_splits dest: read_directory_records_result)
  show ?thesis
  proof (cases "disk ! (offset + 1) = 0xFF")
    case True
    with s2 mp ff have "self2 = self1" by simp
    with p1 p3 True show ?thesis by (simp add: map_decoded_def)
  next
    case False
    with s2 mp ff have "read_map self1 disk (offset + le_uint (slice h 1 2) * 2)
                          (le_uint (slice h 58 59)) = Inr self2" by simp
    from read_map_result [OF this] d1 p3 False show ?thesis
      by (simp add: map_decoded_def)
  qed
qed


lemma get_lbn_on_disk:
  assumes "map_decoded f" and "extents_on_disk disk f"
    and "1 \<le> v" and "v \<le> int (f_total_block_count f)"
  shows "\<exists>l. get_lbn_for_vbn f v = Some l \<and> l * 512 + 512 \<le> length disk"
proof -
  from assms(1,3,4) have "int 0 \<le> v - 1" "v - 1 < int (0 + sum_list (map block_count (f_map f)))"
    by (simp_all add: map_decoded_def)
  from get_lbn_loop_defined [OF this] obtain r where r: "get_lbn_loop (f_map f) (v - 1) 0 = Some r"
    by blast
  from get_lbn_loop_Some [OF r] obtain i where i: "i < length (f_map f)"
    "int (extent_base (f_map f) i) \<le> v - 1"
    "v - 1 < int (extent_base (f_map f) i) + int (block_count (f_map f ! i))"
    "r = lbn (f_map f ! i) + nat (v - 1 - int (extent_base (f_map f) i))"
    by auto
  from i(2,3,4) have "r + 1 \<le> lbn (f_map f ! i) + block_count (f_map f ! i)" by linarith
  then have "(r + 1) * 512 \<le> (lbn (f_map f ! i) + block_count (f_map f ! i)) * 512"
    by (rule mult_le_mono1)
  moreover from assms(2) i(1)
  have "(lbn (f_map f ! i) + block_count (f_map f ! i)) * 512 \<le> length disk"
    by (simp add: extents_on_disk_def list_all_length)
  ultimately have "r * 512 + 512 \<le> length disk" by simp
  with r show ?thesis by (simp add: get_lbn_for_vbn_def)
qed

lemma read_loop_length:
  assumes "map_decoded f" and "extents_on_disk disk f"
    and "offset mod 512 = 0" and "0 \<le> offset"
    and "end_offset \<le> int (f_total_block_count f) * 512"
    and "data_offset = length data"
  shows "\<exists>data'. read_loop disk f offset end_offset data_offset data = Inr data'
           \<and> int (length data') =
               int (length data)
               + (if offset < end_offset then 512 * ((end_offset - offset + 511) div 512) else 0)"
  using assms
proof (induction disk f offset end_offset data_offset data rule: read_loop.induct)
  case (1 disk fl offset end_offset data_offset data)
  show ?case
  proof (cases "offset < end_offset")
    case False
    then show ?thesis by (simp add: read_loop.simps)
  next
    case True
    let ?v = "offset div 512 + 1"
    from "1.prems"(4) have v1: "1 \<le> ?v" by simp
    from True "1.prems"(5) have "offset < int (f_total_block_count fl) * 512" by simp
    then have v2: "?v \<le> int (f_total_block_count fl)" by simp
    from get_lbn_on_disk [OF "1.prems"(1,2) v1 v2] obtain l where
      l: "get_lbn_for_vbn fl ?v = Some l" "l * 512 + 512 \<le> length disk" by blast
    let ?chunk = "slice disk (l * 512) (l * 512 + 512)"
    let ?data1 = "slice_assign data data_offset (data_offset + 512) ?chunk"
    from l(2) have lc: "length ?chunk = 512" by (simp add: slice_def)
    with "1.prems"(6) have d1: "?data1 = data @ ?chunk" "data_offset + 512 = length ?data1"
      by (simp_all add: slice_assign_def)
    from "1.prems"(3) have m: "(offset + 512) mod 512 = 0" by simp
    from "1.prems"(4) have p: "0 \<le> offset + 512" by simp
    from "1.IH" [OF True l(1) refl "1.prems"(1,2) m p "1.prems"(5) d1(2)]
    obtain data' where
      r: "read_loop disk fl (offset + 512) end_offset (data_offset + 512) ?data1 = Inr data'"
      and n: "int (length data') =
              int (length ?data1)
              + (if offset + 512 < end_offset
                 then 512 * ((end_offset - (offset + 512) + 511) div 512) else 0)"
      by blast
    from True l(1) r have res: "read_loop disk fl offset end_offset data_offset data = Inr data'"
      by (subst read_loop.simps) (simp add: Let_def)
    have "(if offset + 512 < end_offset
           then 512 * ((end_offset - (offset + 512) + 511) div 512) else 0) + 512
          = 512 * ((end_offset - offset + 511) div 512)"
    proof (cases "offset + 512 < end_offset")
      case True
      have "(end_offset - offset + 511) div 512 = (end_offset - (offset + 512) + 511) div 512 + 1"
        by linarith
      with True show ?thesis by simp
    next
      case False
      with \<open>offset < end_offset\<close> have "(end_offset - offset + 511) div 512 = 1" by linarith
      with False show ?thesis by simp
    qed
    with n d1(1) lc True have "int (length data') =
        int (length data) + 512 * ((end_offset - offset + 511) div 512)"
      by simp
    with res True show ?thesis by simp
  qed
qed

text \<open>
  C3 (as amended). For a file whose size is 512 times the sum of the block counts of its
  map and whose extents lie inside the image, a read at a 512-aligned offset \<open>o\<close> with
  \<open>0 \<le> o \<le> size\<close> and a length \<open>n \<ge> 0\<close> returns whole blocks: the result has
  \<open>512 * ceil ((end - o) / 512)\<close> bytes, where \<open>end = min (o + n) size\<close>. That is \<open>end - o\<close>
  when \<open>n\<close> is a multiple of 512 or the read reaches the end of the file, and a read at
  \<open>o = size\<close> returns empty bytes.
\<close>

theorem read_returns_whole_blocks:
  assumes "get_file_by_path self path = Inr (Some a)"
    and "map_decoded (v_heap self ! a)"
    and "f_size (v_heap self ! a) = f_total_block_count (v_heap self ! a) * BLOCK_SIZE"
    and "extents_on_disk (v_disk self) (v_heap self ! a)"
    and "offset mod 512 = 0" and "0 \<le> offset" and "offset \<le> int (f_size (v_heap self ! a))"
    and "0 \<le> len"
  shows "\<exists>data. fst (read self path len offset) = Inr data
           \<and> int (length data) =
               512 * ((min (offset + len) (int (f_size (v_heap self ! a))) - offset + 511) div 512)
           \<and> (len mod 512 = 0 \<or> int (f_size (v_heap self ! a)) \<le> offset + len \<longrightarrow>
                int (length data) = min (offset + len) (int (f_size (v_heap self ! a))) - offset)
           \<and> (offset = int (f_size (v_heap self ! a)) \<longrightarrow> data = [])"
proof -
  let ?f = "v_heap self ! a"
  let ?end = "min (offset + len) (int (f_size ?f))"
  have e: "(if offset + len > int (f_size ?f) then int (f_size ?f) else offset + len) = ?end"
    by (simp add: min_def)
  from assms(3) have le: "?end \<le> int (f_total_block_count ?f) * 512" by simp
  from read_loop_length [OF assms(2,4,5,6) le, of 0 "[]"] obtain data where
    r: "read_loop (v_disk self) ?f offset ?end 0 [] = Inr data"
    and n: "int (length data) =
            (if offset < ?end then 512 * ((?end - offset + 511) div 512) else 0)"
    by auto
  from assms(1,5) r have res: "fst (read self path len offset) = Inr data"
    unfolding read_def Let_def by (auto simp: min_def)
  from assms(7,8) have ge: "offset \<le> ?end" by simp
  have n': "int (length data) = 512 * ((?end - offset + 511) div 512)"
  proof (cases "offset < ?end")
    case True
    with n show ?thesis by simp
  next
    case False
    with ge have z: "?end - offset = 0" by linarith
    from n False show ?thesis unfolding z by simp
  qed
  have ex: "int (length data) = ?end - offset"
    if "len mod 512 = 0 \<or> int (f_size ?f) \<le> offset + len"
  proof -
    from assms(3) have ds: "(512::int) dvd int (f_size ?f)" by simp
    from assms(5) have d0: "(512::int) dvd offset" by (simp add: dvd_eq_mod_eq_0)
    have "(512::int) dvd ?end - offset"
    proof (cases "offset + len \<le> int (f_size ?f)")
      case False
      then have "?end - offset = int (f_size ?f) - offset" by simp
      with ds d0 show ?thesis by (simp add: dvd_diff)
    next
      case True
      then have e: "?end - offset = len" by simp
      from that show ?thesis
      proof
        assume "len mod 512 = 0"
        with e show ?thesis by (simp add: dvd_eq_mod_eq_0)
      next
        assume "int (f_size ?f) \<le> offset + len"
        with True have "len = int (f_size ?f) - offset" by simp
        with e ds d0 show ?thesis by (simp add: dvd_diff)
      qed
    qed
    then obtain k where k: "?end - offset = 512 * k" by (rule dvdE)
    have "(512 * k + 511) div 512 = k" by linarith
    then have "512 * ((?end - offset + 511) div 512) = ?end - offset"
      unfolding k by simp
    with n' show ?thesis by simp
  qed
  have em: "data = []" if "offset = int (f_size ?f)"
  proof -
    from that assms(8) have z: "?end - offset = 0" by linarith
    from n' show ?thesis unfolding z by simp
  qed
  from res n' ex em show ?thesis by blast
qed

subsection \<open>Decoding the example image\<close>

lemma block_lengths [simp]:
  "length boot_block = 512" "length home_block = 512" "length index_header = 512"
  "length mfd_header = 512" "length a_txt_header = 512" "length b_dat_header = 512"
  "length d_dir_header = 512" "length mfd_block = 512" "length d_dir_block = 512"
  "length data_block = 512"
  by (simp_all add: boot_block_def home_block_def index_header_def mfd_header_def
      a_txt_header_def b_dat_header_def d_dir_header_def mfd_block_def d_dir_block_def
      data_block_def)

lemma length_image [simp]: "length example_image = 6144"
  by (simp add: example_image_def)

lemma drop_image:
  "drop 512 example_image = home_block @ drop 1024 example_image"
  "drop 1024 example_image = index_header @ drop 1536 example_image"
  "drop 1536 example_image = mfd_header @ drop 2048 example_image"
  "drop 2048 example_image = a_txt_header @ drop 2560 example_image"
  "drop 2560 example_image = b_dat_header @ drop 3072 example_image"
  "drop 3072 example_image = d_dir_header @ drop 3584 example_image"
  "drop 3584 example_image = replicate 512 0 @ drop 4096 example_image"
  "drop 4096 example_image = mfd_block @ drop 4608 example_image"
  "drop 5120 example_image = data_block @ drop 5632 example_image"
  "drop 5632 example_image = d_dir_block"
  by (simp_all add: example_image_def)

lemma take_drop_mid:
  "length A = k \<Longrightarrow> k \<le> off \<Longrightarrow> off + n \<le> k + length blk \<Longrightarrow>
   take n (drop off (A @ blk @ B)) = take n (drop (off - k) blk)"
  by simp

lemma nth_mid:
  "length A = k \<Longrightarrow> k \<le> i \<Longrightarrow> i < k + length blk \<Longrightarrow> (A @ blk @ B) ! i = blk ! (i - k)"
proof -
  assume a: "length A = k" "k \<le> i" "i < k + length blk"
  then have "\<not> i < length A" "i - length A < length blk" by simp_all
  then show ?thesis using a by (simp only: nth_append if_False if_True)
qed

lemma image_take_drop:
  "512 \<le> off \<Longrightarrow> off + n \<le> 1024 \<Longrightarrow> take n (drop off example_image) = take n (drop (off - 512) home_block)"
  "1024 \<le> off \<Longrightarrow> off + n \<le> 1536 \<Longrightarrow> take n (drop off example_image) = take n (drop (off - 1024) index_header)"
  "1536 \<le> off \<Longrightarrow> off + n \<le> 2048 \<Longrightarrow> take n (drop off example_image) = take n (drop (off - 1536) mfd_header)"
  "2048 \<le> off \<Longrightarrow> off + n \<le> 2560 \<Longrightarrow> take n (drop off example_image) = take n (drop (off - 2048) a_txt_header)"
  "2560 \<le> off \<Longrightarrow> off + n \<le> 3072 \<Longrightarrow> take n (drop off example_image) = take n (drop (off - 2560) b_dat_header)"
  "3072 \<le> off \<Longrightarrow> off + n \<le> 3584 \<Longrightarrow> take n (drop off example_image) = take n (drop (off - 3072) d_dir_header)"
  "4096 \<le> off \<Longrightarrow> off + n \<le> 4608 \<Longrightarrow> take n (drop off example_image) = take n (drop (off - 4096) mfd_block)"
  "5120 \<le> off \<Longrightarrow> off + n \<le> 5632 \<Longrightarrow> take n (drop off example_image) = take n (drop (off - 5120) data_block)"
  "5632 \<le> off \<Longrightarrow> off + n \<le> 6144 \<Longrightarrow> take n (drop off example_image) = take n (drop (off - 5632) d_dir_block)"
  unfolding example_image_def
  using take_drop_mid [of "boot_block" 512 off n home_block]
        take_drop_mid [of "boot_block @ home_block" 1024 off n index_header]
        take_drop_mid [of "boot_block @ home_block @ index_header" 1536 off n mfd_header]
        take_drop_mid [of "boot_block @ home_block @ index_header @ mfd_header" 2048 off n a_txt_header]
        take_drop_mid [of "boot_block @ home_block @ index_header @ mfd_header @ a_txt_header" 2560 off n b_dat_header]
        take_drop_mid [of "boot_block @ home_block @ index_header @ mfd_header @ a_txt_header @ b_dat_header" 3072 off n d_dir_header]
        take_drop_mid [of "boot_block @ home_block @ index_header @ mfd_header @ a_txt_header @ b_dat_header @ d_dir_header @ replicate 512 0" 4096 off n mfd_block]
        take_drop_mid [of "boot_block @ home_block @ index_header @ mfd_header @ a_txt_header @ b_dat_header @ d_dir_header @ replicate 512 0 @ mfd_block @ replicate 512 0" 5120 off n data_block]
        take_drop_mid [of "boot_block @ home_block @ index_header @ mfd_header @ a_txt_header @ b_dat_header @ d_dir_header @ replicate 512 0 @ mfd_block @ replicate 512 0 @ data_block" 5632 off n d_dir_block "[]"]
  by simp_all

lemma image_nth:
  "1024 \<le> i \<Longrightarrow> i < 1536 \<Longrightarrow> example_image ! i = index_header ! (i - 1024)"
  "1536 \<le> i \<Longrightarrow> i < 2048 \<Longrightarrow> example_image ! i = mfd_header ! (i - 1536)"
  "2048 \<le> i \<Longrightarrow> i < 2560 \<Longrightarrow> example_image ! i = a_txt_header ! (i - 2048)"
  "2560 \<le> i \<Longrightarrow> i < 3072 \<Longrightarrow> example_image ! i = b_dat_header ! (i - 2560)"
  "3072 \<le> i \<Longrightarrow> i < 3584 \<Longrightarrow> example_image ! i = d_dir_header ! (i - 3072)"
  "3584 \<le> i \<Longrightarrow> i < 4096 \<Longrightarrow> example_image ! i = replicate 512 0 ! (i - 3584)"
  unfolding example_image_def
  using nth_mid [of "boot_block @ home_block" 1024 i index_header]
        nth_mid [of "boot_block @ home_block @ index_header" 1536 i mfd_header]
        nth_mid [of "boot_block @ home_block @ index_header @ mfd_header" 2048 i a_txt_header]
        nth_mid [of "boot_block @ home_block @ index_header @ mfd_header @ a_txt_header" 2560 i b_dat_header]
        nth_mid [of "boot_block @ home_block @ index_header @ mfd_header @ a_txt_header @ b_dat_header" 3072 i d_dir_header]
        nth_mid [of "boot_block @ home_block @ index_header @ mfd_header @ a_txt_header @ b_dat_header @ d_dir_header" 3584 i "replicate 512 0"]
  by simp_all

lemma list_all_replicate [simp]: "list_all P (replicate n x) = (n = 0 \<or> P x)"
  by (induction n) auto

lemma dropWhile_replicate_append [simp]:
  "P x \<Longrightarrow> dropWhile P (replicate n x @ ys) = dropWhile P ys"
  by (induction n) auto

lemma dropWhile_replicate [simp]: "P x \<Longrightarrow> dropWhile P (replicate n x) = []"
  by (induction n) auto

lemma isspace_space [simp]: "isspace CHR '' ''"
  by (simp add: isspace_def)

lemma le_uint_replicate_0 [simp]: "le_uint (replicate n 0) = 0"
  by (induction n) auto


lemma read_block_records_numeral:
  "read_block_records disk offset (numeral k) records =
     (case unpack_from 2 disk offset of
        Inl e \<Rightarrow> Inl e
      | Inr h \<Rightarrow>
          if sint (word_of_nat (le_uint h) :: 16 word) < 0 then Inr records
          else (case DirectoryRecord_init disk offset of
                  Inl e \<Rightarrow> Inl e
                | Inr record \<Rightarrow>
                    read_block_records disk (offset + dr_size record) (pred_numeral k)
                      (records @ [record])))"
  by (simp add: numeral_eq_Suc)

lemmas eval_defs = File_init_def unpack_from_def slice_def index_byte_def Let_def FileID_init_def
  read_ident_def decode_ascii_def char_of_def strip_def isspace_def rsplit1_head_def strip_dot_def
  read_map_def read_map_loop.simps read_map_pointer_def nth_append bit_0
  image_take_drop image_nth

lemma File_init_a_txt: "File_init example_image 2048 = Inr a_txt_file"
  by (simp add: eval_defs a_txt_header_def a_txt_file_def)

lemma File_init_b_dat: "File_init example_image 2560 = Inr b_dat_file"
  by (simp add: eval_defs b_dat_header_def b_dat_file_def)

lemma File_init_index: "File_init example_image 1024 = Inr index_file0"
  by (simp add: eval_defs index_header_def index_file0_def)

lemma File_init_d_dir: "File_init example_image 3072 = Inr d_dir_file"
  by (simp add: eval_defs d_dir_header_def d_dir_file_def read_directory_records_def)

lemma mfd_block_records:
  "read_block_records example_image 4096 62 [] = Inr (f_records mfd_file)"
  by (simp add: read_block_records_numeral unpack_from_def slice_def Let_def image_take_drop
      mfd_block_def mfd_file_def DirectoryRecord_init_def DirectoryEntry_init_def FileID_init_def
      decode_ascii_def char_of_def strip_dot_def entries_count_def int_truediv_def bit_0)

lemma File_init_mfd: "File_init example_image 1536 = Inr mfd_file"
  by (simp add: eval_defs mfd_header_def read_directory_records_def get_lbn_for_vbn_def
      mfd_block_records) (simp add: mfd_file_def)

lemma example_file_fields [simp]:
  "f_name mfd_file = Some ''000000.DIR''" "file_number (f_fid mfd_file) = 4"
  "f_name a_txt_file = Some ''A.TXT''" "file_number (f_fid a_txt_file) = 5"
  "f_name b_dat_file = Some ''B.DAT''" "file_number (f_fid b_dat_file) = 6"
  "f_name d_dir_file = Some ''D.DIR''" "file_number (f_fid d_dir_file) = 7"
  by (simp_all add: mfd_file_def a_txt_file_def b_dat_file_def d_dir_file_def)

lemma index_lookup:
  "get_lbn_for_vbn (skip_clusters index_file0) 1 = Some 3"
  "get_lbn_for_vbn (skip_clusters index_file0) 2 = Some 4"
  "get_lbn_for_vbn (skip_clusters index_file0) 3 = Some 5"
  "get_lbn_for_vbn (skip_clusters index_file0) 4 = Some 6"
  "get_lbn_for_vbn (skip_clusters index_file0) 5 = Some 7"
  by (simp_all add: get_lbn_for_vbn_def skip_clusters_def index_file0_def)

lemma first_bytes:
  "index_byte example_image 1536 = Inr 30" "index_byte example_image 2048 = Inr 30"
  "index_byte example_image 2560 = Inr 30" "index_byte example_image 3072 = Inr 30"
  "index_byte example_image 3584 = Inr 0"
  by (simp_all add: index_byte_def image_nth mfd_header_def a_txt_header_def b_dat_header_def
      d_dir_header_def)

lemma list_update_numeral [simp]:
  "(x # xs)[numeral k := v] = x # xs[pred_numeral k := v]"
  by (simp add: numeral_eq_Suc)

lemma scan_example:
  "scan_loop example_image (skip_clusters index_file0) 0 [1, 2, 3, 4, 5, 6, 7]
     \<lparr>ss_heap = [], ss_mfd = None,
      ss_files = [None, None, None, None, None, None, None, None], ss_count = 0\<rparr>
   = Inr \<lparr>ss_heap = [mfd_file, mfd_file, a_txt_file, a_txt_file,
                       b_dat_file, b_dat_file, d_dir_file, d_dir_file],
          ss_mfd = Some 0,
          ss_files = [None, None, None, Some 1, Some 3, Some 5, Some 7, None],
          ss_count = 4\<rparr>"
  by (simp add: scan_step_def index_lookup first_bytes File_init_mfd File_init_a_txt
      File_init_b_dat File_init_d_dir list_assign_def Let_def)

lemma index_total: "f_total_block_count (skip_clusters index_file0) = 8"
  by (simp add: skip_clusters_def index_file0_def)

lemma read_home_block_example: "read_home_block example_image ''/mnt'' = Inr example_volume"
proof -
  have r: "replicate 8 None = [None, None, None, None, None, None, None, None :: nat option]"
    by (simp add: numeral_eq_Suc)
  have u: "[Suc 0..<8] = [1, 2, 3, 4, 5, 6, 7]"
    by (simp add: upt_rec)
  have s: "scan_loop example_image (skip_clusters index_file0) 0 [Suc 0..<8]
             \<lparr>ss_heap = [], ss_mfd = None,
              ss_files = [None, None, None, None, None, None, None, None], ss_count = 0\<rparr>
           = Inr \<lparr>ss_heap = [mfd_file, mfd_file, a_txt_file, a_txt_file,
                               b_dat_file, b_dat_file, d_dir_file, d_dir_file],
                  ss_mfd = Some 0,
                  ss_files = [None, None, None, Some 1, Some 3, Some 5, Some 7, None],
                  ss_count = 4\<rparr>"
    using scan_example by (simp only: u)
  show ?thesis
    unfolding read_home_block_def
    by (simp add: unpack_from_def slice_def image_take_drop home_block_def decode_ascii_def
        char_of_def bit_0 Let_def File_init_index index_total r s example_volume_def)
qed

subsection \<open>Behaviour on the example inputs\<close>

lemma example_paths:
  "get_file_by_path example_volume ''/'' = Inr (Some 0)"
  "get_file_by_path example_volume ''/000000.DIR'' = Inr (Some 1)"
  "get_file_by_path example_volume ''/A.TXT'' = Inr (Some 3)"
  "get_file_by_path example_volume ''/B.DAT'' = Inr (Some 5)"
  "get_file_by_path example_volume ''/D.DIR'' = Inr (Some 7)"
  "get_file_by_path example_volume ''/NOSUCH'' = Inl AttributeError"
  by (simp_all add: get_file_by_path_def path_parts_def follow_part_def get_record_by_name_def
      example_volume_def mfd_file_def py_index_def)

text \<open>
  C2. On the format-3 pointer \<open>01 C0 02 00 34 12 00 00\<close> the decoder advances 8 bytes but
  unpacks with the format \<open>BBH\<close>: \<open>read_map\<close> on a map area holding this pointer appends
  the extent \<open>(lbn = 2, block_count = 0x100C0)\<close>, where the layout \<open>u16, u16, u32\<close> of the
  specification gives \<open>(lbn = 0x1234, block_count = 0x10002)\<close>.
\<close>

theorem format3_pointer_misread:
  "read_map_pointer format3_pointer 0 = Inr (\<lparr>lbn = 2, block_count = 0x100C0\<rparr>, 8)
   \<and> read_map b_dat_file format3_pointer 0 4 =
       Inr (b_dat_file\<lparr>f_map := [\<lparr>lbn = 2, block_count = 0x100C0\<rparr>],
                        f_total_block_count := 0x100C0, f_size := 0x100C0 * BLOCK_SIZE\<rparr>)
   \<and> spec_format3_pointer format3_pointer 0 = Inr (\<lparr>lbn = 0x1234, block_count = 0x10002\<rparr>, 8)"
proof -
  have p: "read_map_pointer format3_pointer 0 = Inr (\<lparr>lbn = 2, block_count = 0x100C0\<rparr>, 8)"
    by (simp add: read_map_pointer_def format3_pointer_def index_byte_def unpack_from_def
        slice_def Let_def)
  have m: "read_map b_dat_file format3_pointer 0 4 =
       Inr (b_dat_file\<lparr>f_map := [\<lparr>lbn = 2, block_count = 0x100C0\<rparr>],
                        f_total_block_count := 0x100C0, f_size := 0x100C0 * BLOCK_SIZE\<rparr>)"
    by (simp add: read_map_def read_map_loop.simps p b_dat_file_def)
  have s: "spec_format3_pointer format3_pointer 0 =
             Inr (\<lparr>lbn = 0x1234, block_count = 0x10002\<rparr>, 8)"
    by (simp add: spec_format3_pointer_def format3_pointer_def unpack_from_def slice_def Let_def)
  from p m s show ?thesis by blast
qed

lemma d_dir_block_records:
  "read_block_records example_image 5632 62 [] =
     Inr [\<lparr>dr_size = 20, dr_name = ''C.TXT'',
           dr_entries = [\<lparr>de_fid = \<lparr>file_number = 5, sequence_number = 1,
                                     relative_volume_number = 0\<rparr>\<rparr>]\<rparr>]"
  by (simp add: read_block_records_numeral unpack_from_def slice_def Let_def image_take_drop
      d_dir_block_def DirectoryRecord_init_def DirectoryEntry_init_def FileID_init_def
      decode_ascii_def char_of_def strip_dot_def entries_count_def int_truediv_def bit_0)

text \<open>
  C5. The header of D.DIR in the example image decodes to a directory of one block; VBN 1
  maps to LBN 11, whose block holds the record C.TXT, but the loop over
  \<open>range(1, total_block_count)\<close> is empty and the decoded directory has no records.
\<close>

theorem single_block_directory_unread:
  "File_init example_image 3072 = Inr d_dir_file
   \<and> f_is_directory d_dir_file \<and> f_total_block_count d_dir_file = 1
   \<and> get_lbn_for_vbn d_dir_file 1 = Some 11
   \<and> read_block_records example_image (11 * BLOCK_SIZE) 62 [] =
       Inr [\<lparr>dr_size = 20, dr_name = ''C.TXT'',
             dr_entries = [\<lparr>de_fid = \<lparr>file_number = 5, sequence_number = 1,
                                       relative_volume_number = 0\<rparr>\<rparr>]\<rparr>]
   \<and> f_records d_dir_file = []"
  using File_init_d_dir d_dir_block_records
  by (simp add: d_dir_file_def get_lbn_for_vbn_def)

text \<open>
  C7. On the example volume no record of the MFD is named NOSUCH; resolving \<open>/NOSUCH\<close>
  raises AttributeError (\<open>rec.entries\<close> on \<open>None\<close>), and so do \<open>getattr\<close>, \<open>readdir\<close> and
  \<open>read\<close> on that path.
\<close>

theorem missing_component_crashes:
  "read_home_block example_image ''/mnt'' = Inr example_volume
   \<and> get_record_by_name (v_heap example_volume ! v_mfd example_volume) ''NOSUCH'' = None
   \<and> get_file_by_path example_volume ''/NOSUCH'' = Inl AttributeError
   \<and> fst (getattr example_volume (0, 0) ''/NOSUCH'') = Inl AttributeError
   \<and> fst (readdir example_volume ''/NOSUCH'') = Inl AttributeError
   \<and> fst (read example_volume ''/NOSUCH'' 512 0) = Inl AttributeError"
  using read_home_block_example example_paths(6)
  by (simp add: getattr_def readdir_def read_def)
    (simp add: get_record_by_name_def example_volume_def mfd_file_def)

theorem DirectoryRecord_entries_counterexample:
  "DirectoryRecord_init short_record 0 =
     Inr \<lparr>dr_size = 8, dr_name = [],
          dr_entries = [\<lparr>de_fid = \<lparr>file_number = 5, sequence_number = 1,
                                    relative_volume_number = 0\<rparr>\<rparr>]\<rparr>
   \<and> spec_entries_count (record_W_SIZE short_record 0) (record_B_NAMECOUNT short_record 0) = 0"
  by (simp add: DirectoryRecord_init_def DirectoryEntry_init_def FileID_init_def unpack_from_def
      slice_def Let_def short_record_def decode_ascii_def strip_dot_def entries_count_def
      int_truediv_def spec_entries_count_def record_W_SIZE_def record_B_NAMECOUNT_def)

lemma mfd_block_first_record:
  "DirectoryRecord_init mfd_block 0 =
     Inr \<lparr>dr_size = 24, dr_name = ''000000.DIR'',
          dr_entries = [\<lparr>de_fid = \<lparr>file_number = 4, sequence_number = 4,
                                    relative_volume_number = 0\<rparr>\<rparr>]\<rparr>"
  by (simp add: DirectoryRecord_init_def DirectoryEntry_init_def FileID_init_def unpack_from_def
      slice_def Let_def mfd_block_def decode_ascii_def char_of_def strip_dot_def entries_count_def
      int_truediv_def bit_0)

theorem DirectoryRecord_entries_witness:
  "DirectoryRecord_init mfd_block 0 =
     Inr \<lparr>dr_size = 24, dr_name = ''000000.DIR'',
          dr_entries = [\<lparr>de_fid = \<lparr>file_number = 4, sequence_number = 4,
                                    relative_volume_number = 0\<rparr>\<rparr>]\<rparr>
   \<and> record_W_SIZE mfd_block 0 + 2 = 6 + record_B_NAMECOUNT mfd_block 0 + 0 + 8 * 1
   \<and> spec_entries_count (record_W_SIZE mfd_block 0) (record_B_NAMECOUNT mfd_block 0) = 1"
proof -
  have w: "record_W_SIZE mfd_block 0 + 2 = 6 + record_B_NAMECOUNT mfd_block 0 + 0 + 8 * 1"
    by (simp add: record_W_SIZE_def record_B_NAMECOUNT_def slice_def mfd_block_def)
  note t = DirectoryRecord_entries [OF mfd_block_first_record, THEN conjunct2, rule_format, where k=1 and pad=0]
  from t [OF conjI [OF w le0]] w mfd_block_first_record
  show ?thesis by simp
qed



lemma read_a_txt_100: "fst (read example_volume ''/A.TXT'' 100 0) = Inr data_block"
  using example_paths(3)
  by (simp add: read_def read_loop.simps get_lbn_for_vbn_def example_volume_def a_txt_file_def
      slice_assign_def slice_def image_take_drop Let_def)

theorem read_length_counterexample:
  "read_home_block example_image ''/mnt'' = Inr example_volume
   \<and> get_file_by_path example_volume ''/A.TXT'' = Inr (Some 3)
   \<and> f_size (v_heap example_volume ! 3) = 512
   \<and> fst (read example_volume ''/A.TXT'' 100 0) = Inr data_block
   \<and> length data_block = 512
   \<and> min (0 + 100) (int (f_size (v_heap example_volume ! 3))) - 0 = 100"
  using read_home_block_example example_paths(3) read_a_txt_100
  by (simp add: example_volume_def a_txt_file_def)

theorem read_returns_whole_blocks_witness:
  "get_file_by_path example_volume ''/A.TXT'' = Inr (Some 3)
   \<and> map_decoded (v_heap example_volume ! 3)
   \<and> f_size (v_heap example_volume ! 3) = f_total_block_count (v_heap example_volume ! 3) * BLOCK_SIZE
   \<and> extents_on_disk (v_disk example_volume) (v_heap example_volume ! 3)
   \<and> (\<exists>data. fst (read example_volume ''/A.TXT'' 1000 0) = Inr data \<and> int (length data) = 512)
   \<and> (\<exists>data. fst (read example_volume ''/A.TXT'' 100 512) = Inr data \<and> data = [])"
proof -
  have a: "v_heap example_volume ! 3 = a_txt_file" "v_disk example_volume = example_image"
    by (simp_all add: example_volume_def)
  have h: "map_decoded (v_heap example_volume ! 3)"
    "f_size (v_heap example_volume ! 3) = f_total_block_count (v_heap example_volume ! 3) * BLOCK_SIZE"
    "extents_on_disk (v_disk example_volume) (v_heap example_volume ! 3)"
    unfolding a by (simp_all add: map_decoded_def extents_on_disk_def a_txt_file_def)
  have s: "f_size (v_heap example_volume ! 3) = 512"
    unfolding a by (simp add: a_txt_file_def)
  from read_returns_whole_blocks [OF example_paths(3) h, of 0 1000]
    read_returns_whole_blocks [OF example_paths(3) h, of 512 100] example_paths(3) h
  show ?thesis unfolding s by simp
qed

subsection \<open>The file table after bootstrap\<close>

lemma File_init_size_mod: "File_init disk offset = Inr f \<Longrightarrow> f_size f mod 512 = 0"
  using File_init_cases [of disk offset f] by (auto split: if_splits)

lemma list_assign_slot:
  assumes "list_assign xs (int fnum - 1) v = Inr xs'"
  shows "slot_index (length xs) fnum < length xs \<and> xs' = xs[slot_index (length xs) fnum := v]"
proof (cases "fnum = 0")
  case True
  with assms show ?thesis
    by (auto simp: list_assign_def slot_index_def Let_def nat_diff_distrib split: if_splits)
next
  case False
  then have "nat (int fnum - 1) = fnum - 1" by simp
  with False assms show ?thesis
    by (auto simp: list_assign_def slot_index_def Let_def split: if_splits)
qed

lemma py_index_slot:
  assumes "slot_index (length xs) fnum < length xs"
  shows "py_index xs (int fnum - 1) = Inr (xs ! slot_index (length xs) fnum)"
proof (cases "fnum = 0")
  case True
  with assms have "0 < length xs" unfolding slot_index_def by (cases xs) simp_all
  with True show ?thesis
    by (simp add: py_index_def slot_index_def Let_def nat_diff_distrib Suc_le_eq)
next
  case False
  then have "nat (int fnum - 1) = fnum - 1" by simp
  with False assms show ?thesis
    by (auto simp: py_index_def slot_index_def Let_def)
qed

lemma scan_step_Some:
  assumes "scan_step disk index_file bitmap_blocks vbn st = Inr (Some st')"
  obtains fl name where
    "f_size fl mod 512 = 0" "f_name fl = Some name"
    "slot_index (length (ss_files st)) (file_number (f_fid fl)) < length (ss_files st)"
    "st' = \<lparr>ss_heap = ss_heap st @ [fl, fl],
            ss_mfd = (if name = ''000000.DIR'' then Some (length (ss_heap st)) else ss_mfd st),
            ss_files = (ss_files st)[slot_index (length (ss_files st)) (file_number (f_fid fl))
                                     := Some (Suc (length (ss_heap st)))],
            ss_count = ss_count st + 1\<rparr>"
proof -
  from assms obtain l b0 fl name fl2 files' where
    f: "File_init disk (l * 512) = Inr fl" and n: "f_name fl = Some name"
    and f2: "File_init disk (l * 512) = Inr fl2"
    and la: "list_assign (ss_files st) (int (file_number (f_fid fl)) - 1)
               (Some (length (ss_heap st @ [fl]))) = Inr files'"
    and st': "st' = \<lparr>ss_heap = (ss_heap st @ [fl]) @ [fl2],
                     ss_mfd = (if name = ''000000.DIR'' then Some (length (ss_heap st))
                               else ss_mfd st),
                     ss_files = files', ss_count = ss_count st + 1\<rparr>"
    unfolding scan_step_def Let_def
    by (auto simp: ebind_Inr_iff split: option.splits if_splits)
  from f f2 have e: "fl2 = fl" by simp
  from list_assign_slot [OF la] st' e
  have eq: "st' = \<lparr>ss_heap = ss_heap st @ [fl, fl],
            ss_mfd = (if name = ''000000.DIR'' then Some (length (ss_heap st)) else ss_mfd st),
            ss_files = (ss_files st)[slot_index (length (ss_files st)) (file_number (f_fid fl))
                                     := Some (Suc (length (ss_heap st)))],
            ss_count = ss_count st + 1\<rparr>"
    by simp
  show thesis
    by (rule that [OF File_init_size_mod [OF f] n conjunct1 [OF list_assign_slot [OF la]] eq])
qed

lemma scan_step_inv:
  assumes s: "scan_step disk index_file bitmap_blocks vbn st = Inr (Some st')"
    and inv: "scan_inv st"
  shows "scan_inv st' \<and> length (ss_files st') = length (ss_files st)"
proof -
  from s obtain fl name where
    sz: "f_size fl mod 512 = 0"
    and j: "slot_index (length (ss_files st)) (file_number (f_fid fl)) < length (ss_files st)"
    and st': "st' = \<lparr>ss_heap = ss_heap st @ [fl, fl],
            ss_mfd = (if name = ''000000.DIR'' then Some (length (ss_heap st)) else ss_mfd st),
            ss_files = (ss_files st)[slot_index (length (ss_files st)) (file_number (f_fid fl))
                                     := Some (Suc (length (ss_heap st)))],
            ss_count = ss_count st + 1\<rparr>"
    by (rule scan_step_Some)
  let ?h = "ss_heap st" and ?fs = "ss_files st"
  let ?n = "length ?fs" and ?j = "slot_index (length ?fs) (file_number (f_fid fl))"
  let ?h' = "?h @ [fl, fl]" and ?fs' = "?fs[?j := Some (Suc (length ?h))]"
  from inv have ev: "even (length ?h)"
    and i2: "\<And>a. a < length ?h \<Longrightarrow> f_size (?h ! a) mod 512 = 0"
    and i3: "\<And>a. even a \<Longrightarrow> Suc a < length ?h \<Longrightarrow> ?h ! a = ?h ! Suc a"
    and i4: "\<And>i a. i < ?n \<Longrightarrow> ?fs ! i = Some a \<Longrightarrow>
               a < length ?h \<and> odd a \<and> slot_index ?n (file_number (f_fid (?h ! a))) = i"
    and i5: "\<And>m. ss_mfd st = Some m \<Longrightarrow>
               even m \<and> Suc m < length ?h
               \<and> slot_index ?n (file_number (f_fid (?h ! m))) < ?n
               \<and> (\<exists>a'. ?fs ! slot_index ?n (file_number (f_fid (?h ! m))) = Some a' \<and> m < a')"
    unfolding scan_inv_def by blast+
  have old: "?h' ! a = ?h ! a" if "a < length ?h" for a
    using that by (simp add: nth_append)
  have new: "?h' ! length ?h = fl" "?h' ! Suc (length ?h) = fl"
    by (simp_all add: nth_append)
  have p1: "even (length ?h')" using ev by simp
  have p2: "f_size (?h' ! a) mod 512 = 0" if "a < length ?h'" for a
  proof -
    from that consider "a < length ?h" | "a = length ?h" | "a = Suc (length ?h)"
      by fastforce
    then show ?thesis using i2 sz old new by cases simp_all
  qed
  have p3: "?h' ! a = ?h' ! Suc a" if "even a" "Suc a < length ?h'" for a
  proof -
    from that(2) consider "Suc a < length ?h" | "Suc a = length ?h" | "a = length ?h"
      by fastforce
    then show ?thesis
    proof cases
      case 1
      with i3 [OF that(1)] old show ?thesis by simp
    next
      case 2
      with ev that(1) have False by (metis even_Suc)
      then show ?thesis ..
    next
      case 3
      with new show ?thesis by simp
    qed
  qed
  have p4: "a < length ?h' \<and> odd a \<and> slot_index (length ?fs') (file_number (f_fid (?h' ! a))) = i"
    if "i < length ?fs'" "?fs' ! i = Some a" for i a
  proof (cases "i = ?j")
    case True
    with that j have "a = Suc (length ?h)" by simp
    with True ev new show ?thesis by simp
  next
    case False
    with that have "i < ?n" "?fs ! i = Some a" by simp_all
    from i4 [OF this] old show ?thesis by simp
  qed
  have p5: "even m \<and> Suc m < length ?h'
            \<and> slot_index (length ?fs') (file_number (f_fid (?h' ! m))) < length ?fs'
            \<and> (\<exists>a'. ?fs' ! slot_index (length ?fs') (file_number (f_fid (?h' ! m))) = Some a'
                     \<and> m < a')"
    if "(if name = ''000000.DIR'' then Some (length ?h) else ss_mfd st) = Some m" for m
  proof (cases "name = ''000000.DIR''")
    case True
    with that have "m = length ?h" by simp
    with ev new j show ?thesis by simp
  next
    case False
    with that have m: "ss_mfd st = Some m" by simp
    from i5 [OF m] obtain a' where
      a: "even m" "Suc m < length ?h"
      "slot_index ?n (file_number (f_fid (?h ! m))) < ?n"
      "?fs ! slot_index ?n (file_number (f_fid (?h ! m))) = Some a'" "m < a'"
      by blast
    from a(2) have hm: "?h' ! m = ?h ! m" by (simp add: old)
    show ?thesis
    proof (cases "slot_index ?n (file_number (f_fid (?h ! m))) = ?j")
      case True
      with a j hm show ?thesis by simp
    next
      case False
      with a hm show ?thesis by simp
    qed
  qed
  have sel: "ss_heap st' = ?h'" "ss_files st' = ?fs'"
    "ss_mfd st' = (if name = ''000000.DIR'' then Some (length ?h) else ss_mfd st)"
    by (simp_all add: st')
  have "scan_inv st'"
    unfolding scan_inv_def sel using p1 p2 p3 p4 p5 by blast
  moreover have "length (ss_files st') = length ?fs"
    unfolding sel by simp
  ultimately show ?thesis ..
qed

lemma scan_loop_inv:
  "scan_loop disk index_file bitmap_blocks vbns st = Inr st' \<Longrightarrow> scan_inv st \<Longrightarrow>
   scan_inv st' \<and> length (ss_files st') = length (ss_files st)"
proof (induction vbns arbitrary: st)
  case Nil
  then show ?case by simp
next
  case (Cons vbn vbns)
  show ?case
  proof (cases "scan_step disk index_file bitmap_blocks vbn st")
    case (Inl e)
    with Cons.prems show ?thesis by simp
  next
    case (Inr r)
    show ?thesis
    proof (cases r)
      case None
      with Inr Cons.prems show ?thesis by simp
    next
      case (Some st1)
      with Inr Cons.prems have l: "scan_loop disk index_file bitmap_blocks vbns st1 = Inr st'"
        by simp
      from Inr Some have "scan_step disk index_file bitmap_blocks vbn st = Inr (Some st1)" by simp
      from scan_step_inv [OF this Cons.prems(2)] Cons.IH [OF l] show ?thesis by simp
    qed
  qed
qed

lemma scan_inv_init:
  "scan_inv \<lparr>ss_heap = [], ss_mfd = None, ss_files = replicate n None, ss_count = 0\<rparr>"
  by (simp add: scan_inv_def)

lemma read_home_block_scan:
  assumes "read_home_block disk mountpoint = Inr vol"
  obtains st m where "scan_inv st" "ss_mfd st = Some m"
    "v_heap vol = (ss_heap st)[m := (ss_heap st ! m)\<lparr>f_size := 666\<rparr>]"
    "v_mfd vol = m" "v_files vol = ss_files st"
proof -
  from assms obtain index_file W n st m where
    l: "scan_loop disk index_file W [1..<n]
          \<lparr>ss_heap = [], ss_mfd = None, ss_files = replicate n None, ss_count = 0\<rparr> = Inr st"
    and m: "ss_mfd st = Some m"
    and v: "v_heap vol = (ss_heap st)[m := (ss_heap st ! m)\<lparr>f_size := 666\<rparr>]"
      "v_mfd vol = m" "v_files vol = ss_files st"
    unfolding read_home_block_def Let_def
    by (auto simp: ebind_Inr_iff split: option.splits)
  from scan_loop_inv [OF l scan_inv_init] m v that show thesis by blast
qed

text \<open>
  C4 (as amended). After a successful bootstrap the MFD object of the volume has size 666
  and is not the object in the file table: the scan decodes every header twice, the MFD
  equals its twin (the next object) in every field but the size, and the table slot at
  Python index \<open>MFD.fid.file_number - 1\<close> holds an object allocated after the MFD (the twin,
  unless a later header with the same slot replaced it). Every table entry is at the
  Python index of its own file number minus 1 (file number 0 in the last slot), is not the
  MFD object and has its decoded size, a multiple of 512.
\<close>

theorem bootstrap_file_table:
  assumes "read_home_block disk mountpoint = Inr vol"
  shows "Suc (v_mfd vol) < length (v_heap vol)
       \<and> f_size (v_heap vol ! v_mfd vol) = 666
       \<and> v_heap vol ! v_mfd vol = (v_heap vol ! Suc (v_mfd vol))\<lparr>f_size := 666\<rparr>
       \<and> (\<exists>a'. py_index (v_files vol)
                  (int (file_number (f_fid (v_heap vol ! v_mfd vol))) - 1) = Inr (Some a')
               \<and> v_mfd vol < a')
       \<and> (\<forall>i<length (v_files vol). \<forall>a. v_files vol ! i = Some a \<longrightarrow>
             a < length (v_heap vol) \<and> a \<noteq> v_mfd vol
             \<and> f_size (v_heap vol ! a) mod 512 = 0
             \<and> slot_index (length (v_files vol)) (file_number (f_fid (v_heap vol ! a))) = i)"
proof -
  from assms obtain st m where inv: "scan_inv st" and m: "ss_mfd st = Some m"
    and h: "v_heap vol = (ss_heap st)[m := (ss_heap st ! m)\<lparr>f_size := 666\<rparr>]"
    and vm: "v_mfd vol = m" and vf: "v_files vol = ss_files st"
    by (rule read_home_block_scan)
  let ?h = "ss_heap st" and ?fs = "ss_files st"
  from inv m obtain a' where
    em: "even m" and sm: "Suc m < length ?h"
    and sl: "slot_index (length ?fs) (file_number (f_fid (?h ! m))) < length ?fs"
    and fa: "?fs ! slot_index (length ?fs) (file_number (f_fid (?h ! m))) = Some a'" and ma: "m < a'"
    unfolding scan_inv_def by blast
  from inv em sm have tw: "?h ! m = ?h ! Suc m"
    unfolding scan_inv_def by blast
  from sm have hm: "v_heap vol ! m = (?h ! m)\<lparr>f_size := 666\<rparr>"
    and hs: "v_heap vol ! Suc m = ?h ! Suc m" and len: "length (v_heap vol) = length ?h"
    unfolding h by simp_all
  have 1: "Suc (v_mfd vol) < length (v_heap vol)" using sm len vm by simp
  have 2: "f_size (v_heap vol ! v_mfd vol) = 666" using hm vm by simp
  have 3: "v_heap vol ! v_mfd vol = (v_heap vol ! Suc (v_mfd vol))\<lparr>f_size := 666\<rparr>"
    using hm hs tw vm by simp
  have fn: "file_number (f_fid (v_heap vol ! m)) = file_number (f_fid (?h ! m))"
    using hm by simp
  have 4: "\<exists>a'. py_index (v_files vol)
                  (int (file_number (f_fid (v_heap vol ! v_mfd vol))) - 1) = Inr (Some a')
               \<and> v_mfd vol < a'"
    unfolding vf vm fn using py_index_slot [OF sl] fa ma by simp
  have 5: "a < length (v_heap vol) \<and> a \<noteq> v_mfd vol
           \<and> f_size (v_heap vol ! a) mod 512 = 0
           \<and> slot_index (length (v_files vol)) (file_number (f_fid (v_heap vol ! a))) = i"
    if "i < length (v_files vol)" "v_files vol ! i = Some a" for i a
  proof -
    from that vf have "i < length ?fs" "?fs ! i = Some a" by simp_all
    with inv have a: "a < length ?h" "odd a"
      "slot_index (length ?fs) (file_number (f_fid (?h ! a))) = i"
      unfolding scan_inv_def by blast+
    from a(1) inv have s: "f_size (?h ! a) mod 512 = 0"
      unfolding scan_inv_def by blast
    from a(2) em have ne: "a \<noteq> m" by blast
    then have "v_heap vol ! a = ?h ! a" unfolding h by simp
    with a s ne len vm vf show ?thesis by simp
  qed
  from 1 2 3 4 5 show ?thesis by blast
qed

theorem bootstrap_file_table_witness:
  "read_home_block example_image ''/mnt'' = Inr example_volume
   \<and> Suc (v_mfd example_volume) < length (v_heap example_volume)
   \<and> f_size (v_heap example_volume ! v_mfd example_volume) = 666
   \<and> (4::nat) < length (v_files example_volume)
   \<and> v_files example_volume ! 4 = Some 3
   \<and> slot_index (length (v_files example_volume))
        (file_number (f_fid (v_heap example_volume ! 3))) = 4
   \<and> f_size (v_heap example_volume ! 3) mod 512 = 0"
proof -
  have f: "(4::nat) < length (v_files example_volume)" "v_files example_volume ! 4 = Some 3"
    by (simp_all add: example_volume_def)
  note t = bootstrap_file_table [OF read_home_block_example]
  from t have "Suc (v_mfd example_volume) < length (v_heap example_volume)"
    "f_size (v_heap example_volume ! v_mfd example_volume) = 666" by blast+
  moreover from t f have
    "slot_index (length (v_files example_volume))
       (file_number (f_fid (v_heap example_volume ! 3))) = 4"
    "f_size (v_heap example_volume ! 3) mod 512 = 0" by blast+
  ultimately show ?thesis using read_home_block_example f by blast
qed

theorem bootstrap_file_table_counterexample:
  "read_home_block example_image ''/mnt'' = Inr example_volume
   \<and> v_mfd example_volume = 0
   \<and> py_index (v_files example_volume)
        (int (file_number (f_fid (v_heap example_volume ! v_mfd example_volume))) - 1)
       = Inr (Some 1)
   \<and> f_size (v_heap example_volume ! 1) = 1024
   \<and> f_size (v_heap example_volume ! v_mfd example_volume) = 666
   \<and> v_heap example_volume ! 1 \<noteq> v_heap example_volume ! v_mfd example_volume"
proof -
  have "f_size (v_heap example_volume ! 1) = 1024"
    "f_size (v_heap example_volume ! 0) = 666" "v_mfd example_volume = 0"
    "py_index (v_files example_volume)
        (int (file_number (f_fid (v_heap example_volume ! 0))) - 1) = Inr (Some 1)"
    by (simp_all add: example_volume_def mfd_file_def py_index_def)
  moreover from this(1,2)
  have "v_heap example_volume ! 1 \<noteq> v_heap example_volume ! 0" by auto
  ultimately show ?thesis using read_home_block_example by simp
qed

subsection \<open>A directory with a zero-filled block\<close>

lemma length_zero_dir_image [simp]: "length zero_dir_image = 4608"
  by (simp add: zero_dir_image_def)








lemma zero_dir_mfd_fields [simp]:
  "f_name zero_dir_mfd = Some ''000000.DIR''" "file_number (f_fid zero_dir_mfd) = 4"
  by (simp_all add: zero_dir_mfd_def)



end
